theory Spec2Isabelle
  imports Complex_Main "HOL-Library.Log_Nat"
begin

section \<open>The OpenCL C scalar type \<open>float\<close>\<close>

text \<open>
  \<^verbatim>\<open>linalg.h\<close> is OpenCL C. Its only data are the built-in types \<open>float\<close>,
  \<open>float2\<close> and \<open>float3\<close>, and its only operations are the built-in arithmetic
  and comparison operators, the built-in \<open>dot\<close> and the constant \<open>NAN\<close>.

  A \<open>float\<close> is an IEEE 754 binary32 datum: a not-a-number, a signed infinity, or a
  finite number with a sign bit and a magnitude (so that \<open>+0\<close> and \<open>-0\<close> are two
  values). The magnitude of a finite binary32 number is a multiple of \<open>2^-149\<close> with
  at most 24 significant bits, below \<open>2^128\<close>. All not-a-numbers are one value \<open>NaN\<close>:
  the source never looks at a payload.

  Every arithmetic operation returns the exact result rounded to the nearest binary32
  number, ties to even (the default rounding mode of OpenCL C), each operation of the
  source text rounded on its own: products and sums are not fused, subnormal numbers
  are kept, and \<open>dot\<close> adds the products from the first component on.

  The datatype below has a value for every real magnitude, the binary32 numbers among
  them (\<open>binary32\<close> below). The operations return binary32 values on binary32 values
  and follow the same definition elsewhere; a theorem about all values of the type is in
  particular one about all binary32 values. Every number written out in a theorem below
  is a binary32 number.
\<close>

datatype float = NaN | Inf bool | Fin bool real

fun valof :: "float \<Rightarrow> real" where
  "valof (Fin s m) = (if s then - m else m)"
| "valof (Inf s) = 0"
| "valof NaN = 0"

fun is_finite :: "float \<Rightarrow> bool" where
  "is_finite (Fin s m) = True"
| "is_finite (Inf s) = False"
| "is_finite NaN = False"

text \<open>Round to the nearest integer, ties to the even one.\<close>

definition rhe :: "real \<Rightarrow> int" where
  "rhe q = (let f = \<lfloor>q\<rfloor>; r = q - of_int f in
             if r < 1 / 2 then f else if 1 / 2 < r then f + 1
             else if even f then f else f + 1)"

text \<open>
  Rounding of a magnitude \<open>x \<ge> 0\<close> to binary32 precision, with the exponent unbounded
  above. In units of \<open>2^-149\<close> (the smallest subnormal) the magnitude is \<open>y\<close>; a
  magnitude whose integer part has at most 24 bits is rounded to a multiple of that unit
  (the subnormal numbers and the first normal binade), a larger one keeps its 24 leading
  bits.
\<close>

definition round32 :: "real \<Rightarrow> real" where
  "round32 x = (let y = x * 2 ^ 149; sh = nat (bitlen \<lfloor>y\<rfloor> - 24)
                in of_int (rhe (y / 2 ^ sh) * 2 ^ sh) / 2 ^ 149)"

text \<open>The rounded result with its sign; a result of magnitude \<open>2^128\<close> or more overflows.\<close>

definition rnd :: "bool \<Rightarrow> real \<Rightarrow> float" where
  "rnd s x = (let r = round32 x in if 2 ^ 128 \<le> r then Inf s else Fin s r)"

text \<open>The binary32 values of the datatype: rounding leaves the magnitude as it is.\<close>

definition binary32 :: "float \<Rightarrow> bool" where
  "binary32 a = (case a of NaN \<Rightarrow> True | Inf s \<Rightarrow> True
                 | Fin s m \<Rightarrow> 0 \<le> m \<and> m < 2 ^ 128 \<and> round32 m = m)"

fun fneg :: "float \<Rightarrow> float" where
  "fneg NaN = NaN"
| "fneg (Inf s) = Inf (\<not> s)"
| "fneg (Fin s m) = Fin (\<not> s) m"

fun fadd :: "float \<Rightarrow> float \<Rightarrow> float" where
  "fadd NaN b = NaN"
| "fadd a NaN = NaN"
| "fadd (Inf s) (Inf t) = (if s = t then Inf s else NaN)"
| "fadd (Inf s) (Fin t n) = Inf s"
| "fadd (Fin s m) (Inf t) = Inf t"
| "fadd (Fin s m) (Fin t n) =
     (let v = valof (Fin s m) + valof (Fin t n)
      in if v = 0 then Fin (s \<and> t) 0 else rnd (v < 0) \<bar>v\<bar>)"

definition fsub :: "float \<Rightarrow> float \<Rightarrow> float" where
  "fsub a b = fadd a (fneg b)"

fun fmul :: "float \<Rightarrow> float \<Rightarrow> float" where
  "fmul NaN b = NaN"
| "fmul a NaN = NaN"
| "fmul (Inf s) (Inf t) = Inf (s \<noteq> t)"
| "fmul (Inf s) (Fin t n) = (if n = 0 then NaN else Inf (s \<noteq> t))"
| "fmul (Fin s m) (Inf t) = (if m = 0 then NaN else Inf (s \<noteq> t))"
| "fmul (Fin s m) (Fin t n) = rnd (s \<noteq> t) (m * n)"

fun fdiv :: "float \<Rightarrow> float \<Rightarrow> float" where
  "fdiv NaN b = NaN"
| "fdiv a NaN = NaN"
| "fdiv (Inf s) (Inf t) = NaN"
| "fdiv (Inf s) (Fin t n) = Inf (s \<noteq> t)"
| "fdiv (Fin s m) (Inf t) = Fin (s \<noteq> t) 0"
| "fdiv (Fin s m) (Fin t n) =
     (if n = 0 then (if m = 0 then NaN else Inf (s \<noteq> t))
      else rnd (s \<noteq> t) (m / n))"

text \<open>The comparisons \<open><=\<close> and \<open>==\<close>: false as soon as an operand is not a number.\<close>

fun fle :: "float \<Rightarrow> float \<Rightarrow> bool" where
  "fle NaN b = False"
| "fle a NaN = False"
| "fle (Inf s) (Inf t) = (if s then True else \<not> t)"
| "fle (Inf s) (Fin t n) = s"
| "fle (Fin s m) (Inf t) = (\<not> t)"
| "fle (Fin s m) (Fin t n) = (valof (Fin s m) \<le> valof (Fin t n))"

fun feq :: "float \<Rightarrow> float \<Rightarrow> bool" where
  "feq NaN b = False"
| "feq a NaN = False"
| "feq (Inf s) (Inf t) = (s = t)"
| "feq (Inf s) (Fin t n) = False"
| "feq (Fin s m) (Inf t) = False"
| "feq (Fin s m) (Fin t n) = (valof (Fin s m) = valof (Fin t n))"

text \<open>The literals \<open>0.0f\<close> (also the \<open>0\<close> of \<open>det == 0\<close>, converted to \<open>float\<close>),
  \<open>1.0f\<close> and \<open>-1.0f\<close>.\<close>

definition f_zero :: float where "f_zero = Fin False 0"
definition f_one :: float where "f_one = Fin False 1"
definition f_minus_one :: float where "f_minus_one = Fin True 1"

text \<open>The macro \<^verbatim>\<open>#define between(lower, x, upper) ((lower) <= (x) && (x) <= (upper))\<close>.\<close>

definition between :: "float \<Rightarrow> float \<Rightarrow> float \<Rightarrow> bool" where
  "between lower x upper = (fle lower x \<and> fle x upper)"

section \<open>The vector types \<open>float2\<close> and \<open>float3\<close>\<close>

text \<open>
  Components \<open>.x .y .z\<close> are also \<open>.s0 .s1 .s2\<close>. Subtraction of vectors and division
  of a vector by a scalar work component by component; \<open>dot\<close> is the sum of the
  products of the components, taken from the first component on.
\<close>

datatype float2 = Float2 (x2: float) (y2: float)
datatype float3 = Float3 (x3: float) (y3: float) (z3: float)

definition vsub2 :: "float2 \<Rightarrow> float2 \<Rightarrow> float2" where
  "vsub2 a b = Float2 (fsub (x2 a) (x2 b)) (fsub (y2 a) (y2 b))"

definition vdiv2 :: "float2 \<Rightarrow> float \<Rightarrow> float2" where
  "vdiv2 a d = Float2 (fdiv (x2 a) d) (fdiv (y2 a) d)"

definition dot2 :: "float2 \<Rightarrow> float2 \<Rightarrow> float" where
  "dot2 a b = fadd (fmul (x2 a) (x2 b)) (fmul (y2 a) (y2 b))"

definition vsub3 :: "float3 \<Rightarrow> float3 \<Rightarrow> float3" where
  "vsub3 a b = Float3 (fsub (x3 a) (x3 b)) (fsub (y3 a) (y3 b)) (fsub (z3 a) (z3 b))"

definition vdiv3 :: "float3 \<Rightarrow> float \<Rightarrow> float3" where
  "vdiv3 a d = Float3 (fdiv (x3 a) d) (fdiv (y3 a) d) (fdiv (z3 a) d)"

definition dot3 :: "float3 \<Rightarrow> float3 \<Rightarrow> float" where
  "dot3 a b = fadd (fadd (fmul (x3 a) (x3 b)) (fmul (y3 a) (y3 b))) (fmul (z3 a) (z3 b))"

section \<open>The two functions of \<^verbatim>\<open>linalg.h\<close>\<close>

definition line2seg2d :: "float2 \<Rightarrow> float2 \<Rightarrow> float2 \<Rightarrow> float2 \<Rightarrow> float" where
  "line2seg2d origin direction p0 p1 =
     (let A0 = direction;
          A1 = vsub2 p0 p1;
          det = fsub (fmul (x2 A0) (y2 A1)) (fmul (y2 A0) (x2 A1))
      in if feq det f_zero then NaN
         else
           let Ai0 = vdiv2 (Float2 (y2 A1) (fneg (x2 A1))) det;
               Ai1 = vdiv2 (Float2 (fneg (y2 A0)) (x2 A0)) det;
               B = vsub2 p0 origin;
               res = Float2 (dot2 Ai0 B) (dot2 Ai1 B)
           in if fle f_zero (x2 res) \<and> between f_zero (y2 res) f_one then x2 res else NaN)"

definition line2tri3d :: "float3 \<Rightarrow> float3 \<Rightarrow> float3 \<Rightarrow> float3 \<Rightarrow> float3 \<Rightarrow> float" where
  "line2tri3d origin direction p0 p1 p2 =
     (let A0 = direction;
          A1 = vsub3 p0 p1;
          A2 = vsub3 p0 p2;
          det = fadd (fsub (fmul (x3 A0) (fsub (fmul (y3 A1) (z3 A2)) (fmul (z3 A1) (y3 A2))))
                           (fmul (y3 A0) (fsub (fmul (x3 A1) (z3 A2)) (fmul (z3 A1) (x3 A2)))))
                     (fmul (z3 A0) (fsub (fmul (x3 A1) (y3 A2)) (fmul (y3 A1) (x3 A2))))
      in if feq det f_zero then NaN
         else
           let B = vsub3 p0 origin;
               Ai0 = vdiv3 (Float3
                      (fmul f_one (fsub (fmul (y3 A1) (z3 A2)) (fmul (z3 A1) (y3 A2))))
                      (fmul f_minus_one (fsub (fmul (x3 A1) (z3 A2)) (fmul (z3 A1) (x3 A2))))
                      (fmul f_one (fsub (fmul (x3 A1) (y3 A2)) (fmul (y3 A1) (x3 A2))))) det;
               Ai1 = vdiv3 (Float3
                      (fmul f_minus_one (fsub (fmul (y3 A0) (z3 A2)) (fmul (z3 A0) (y3 A2))))
                      (fmul f_one (fsub (fmul (x3 A0) (z3 A2)) (fmul (z3 A0) (x3 A2))))
                      (fmul f_minus_one (fsub (fmul (x3 A0) (y3 A2)) (fmul (y3 A0) (x3 A2))))) det;
               Ai2 = vdiv3 (Float3
                      (fmul f_one (fsub (fmul (y3 A0) (z3 A1)) (fmul (z3 A0) (y3 A1))))
                      (fmul f_minus_one (fsub (fmul (x3 A0) (z3 A1)) (fmul (z3 A0) (x3 A1))))
                      (fmul f_one (fsub (fmul (x3 A0) (y3 A1)) (fmul (y3 A0) (x3 A1))))) det;
               res = Float3 (dot3 Ai0 B) (dot3 Ai1 B) (dot3 Ai2 B);
               in_triangle = (between f_zero (y3 res) f_one \<and>
                              between f_zero (z3 res) f_one \<and>
                              between f_zero (fadd (y3 res) (z3 res)) f_one)
           in if fle f_zero (x3 res) \<and> in_triangle then x3 res else NaN)"

section \<open>The values computed inside a call\<close>

text \<open>
  The local variables \<open>det\<close> and \<open>res\<close> of the two functions, as functions of the
  arguments, and the condition under which \<open>res.s0\<close> is returned. Lemmas
  \<open>line2seg2d_alt\<close> and \<open>line2tri3d_alt\<close> below show that the functions are made of
  exactly these parts.
\<close>

definition line2seg2d_det :: "float2 \<Rightarrow> float2 \<Rightarrow> float2 \<Rightarrow> float" where
  "line2seg2d_det direction p0 p1 =
     (let A0 = direction; A1 = vsub2 p0 p1
      in fsub (fmul (x2 A0) (y2 A1)) (fmul (y2 A0) (x2 A1)))"

definition line2seg2d_res :: "float2 \<Rightarrow> float2 \<Rightarrow> float2 \<Rightarrow> float2 \<Rightarrow> float2" where
  "line2seg2d_res origin direction p0 p1 =
     (let A0 = direction;
          A1 = vsub2 p0 p1;
          det = line2seg2d_det direction p0 p1;
          Ai0 = vdiv2 (Float2 (y2 A1) (fneg (x2 A1))) det;
          Ai1 = vdiv2 (Float2 (fneg (y2 A0)) (x2 A0)) det;
          B = vsub2 p0 origin
      in Float2 (dot2 Ai0 B) (dot2 Ai1 B))"

definition accept2d :: "float2 \<Rightarrow> bool" where
  "accept2d res = (fle f_zero (x2 res) \<and> between f_zero (y2 res) f_one)"

definition line2tri3d_det :: "float3 \<Rightarrow> float3 \<Rightarrow> float3 \<Rightarrow> float3 \<Rightarrow> float" where
  "line2tri3d_det direction p0 p1 p2 =
     (let A0 = direction; A1 = vsub3 p0 p1; A2 = vsub3 p0 p2
      in fadd (fsub (fmul (x3 A0) (fsub (fmul (y3 A1) (z3 A2)) (fmul (z3 A1) (y3 A2))))
                    (fmul (y3 A0) (fsub (fmul (x3 A1) (z3 A2)) (fmul (z3 A1) (x3 A2)))))
              (fmul (z3 A0) (fsub (fmul (x3 A1) (y3 A2)) (fmul (y3 A1) (x3 A2)))))"

definition line2tri3d_res :: "float3 \<Rightarrow> float3 \<Rightarrow> float3 \<Rightarrow> float3 \<Rightarrow> float3 \<Rightarrow> float3" where
  "line2tri3d_res origin direction p0 p1 p2 =
     (let A0 = direction; A1 = vsub3 p0 p1; A2 = vsub3 p0 p2;
          det = line2tri3d_det direction p0 p1 p2;
          B = vsub3 p0 origin;
          Ai0 = vdiv3 (Float3
                 (fmul f_one (fsub (fmul (y3 A1) (z3 A2)) (fmul (z3 A1) (y3 A2))))
                 (fmul f_minus_one (fsub (fmul (x3 A1) (z3 A2)) (fmul (z3 A1) (x3 A2))))
                 (fmul f_one (fsub (fmul (x3 A1) (y3 A2)) (fmul (y3 A1) (x3 A2))))) det;
          Ai1 = vdiv3 (Float3
                 (fmul f_minus_one (fsub (fmul (y3 A0) (z3 A2)) (fmul (z3 A0) (y3 A2))))
                 (fmul f_one (fsub (fmul (x3 A0) (z3 A2)) (fmul (z3 A0) (x3 A2))))
                 (fmul f_minus_one (fsub (fmul (x3 A0) (y3 A2)) (fmul (y3 A0) (x3 A2))))) det;
          Ai2 = vdiv3 (Float3
                 (fmul f_one (fsub (fmul (y3 A0) (z3 A1)) (fmul (z3 A0) (y3 A1))))
                 (fmul f_minus_one (fsub (fmul (x3 A0) (z3 A1)) (fmul (z3 A0) (x3 A1))))
                 (fmul f_one (fsub (fmul (x3 A0) (y3 A1)) (fmul (y3 A0) (x3 A1))))) det
      in Float3 (dot3 Ai0 B) (dot3 Ai1 B) (dot3 Ai2 B))"

definition accept3d :: "float3 \<Rightarrow> bool" where
  "accept3d res = (fle f_zero (x3 res) \<and>
                   (between f_zero (y3 res) f_one \<and>
                    between f_zero (z3 res) f_one \<and>
                    between f_zero (fadd (y3 res) (z3 res)) f_one))"

text \<open>A vector with a not-a-number component; a number that is a zero or not a number;
  a barycentric coordinate exactly on one of the two bounds.\<close>

definition has_nan2 :: "float2 \<Rightarrow> bool" where
  "has_nan2 v = (x2 v = NaN \<or> y2 v = NaN)"

definition has_nan3 :: "float3 \<Rightarrow> bool" where
  "has_nan3 v = (x3 v = NaN \<or> y3 v = NaN \<or> z3 v = NaN)"

definition zero_or_nan :: "float \<Rightarrow> bool" where
  "zero_or_nan a = (case a of NaN \<Rightarrow> True | Inf s \<Rightarrow> False | Fin s m \<Rightarrow> m = 0)"

definition on_bound :: "float \<Rightarrow> bool" where
  "on_bound a = (feq a f_zero \<or> feq a f_one)"

section \<open>Exact calls and the geometric equation\<close>

text \<open>
  The value of a finite number as a real is \<open>valof\<close>. An operation of a call is exact
  when its operands and its result are finite and the result is the real result, that
  is, when nothing was rounded. A call is exact when every arithmetic operation it
  performs is; \<open>line2seg2d_exact\<close> and \<open>line2tri3d_exact\<close> list these operations in the
  order of the source.
\<close>

definition exact_add :: "float \<Rightarrow> float \<Rightarrow> bool" where
  "exact_add a b = (is_finite a \<and> is_finite b \<and> is_finite (fadd a b) \<and>
                    valof (fadd a b) = valof a + valof b)"

definition exact_sub :: "float \<Rightarrow> float \<Rightarrow> bool" where
  "exact_sub a b = (is_finite a \<and> is_finite b \<and> is_finite (fsub a b) \<and>
                    valof (fsub a b) = valof a - valof b)"

definition exact_mul :: "float \<Rightarrow> float \<Rightarrow> bool" where
  "exact_mul a b = (is_finite a \<and> is_finite b \<and> is_finite (fmul a b) \<and>
                    valof (fmul a b) = valof a * valof b)"

definition exact_div :: "float \<Rightarrow> float \<Rightarrow> bool" where
  "exact_div a b = (is_finite a \<and> is_finite b \<and> is_finite (fdiv a b) \<and>
                    valof (fdiv a b) = valof a / valof b)"

definition exact_vsub2 :: "float2 \<Rightarrow> float2 \<Rightarrow> bool" where
  "exact_vsub2 a b = (exact_sub (x2 a) (x2 b) \<and> exact_sub (y2 a) (y2 b))"

definition exact_vdiv2 :: "float2 \<Rightarrow> float \<Rightarrow> bool" where
  "exact_vdiv2 a d = (exact_div (x2 a) d \<and> exact_div (y2 a) d)"

definition exact_dot2 :: "float2 \<Rightarrow> float2 \<Rightarrow> bool" where
  "exact_dot2 a b = (exact_mul (x2 a) (x2 b) \<and> exact_mul (y2 a) (y2 b) \<and>
                     exact_add (fmul (x2 a) (x2 b)) (fmul (y2 a) (y2 b)))"

definition line2seg2d_exact :: "float2 \<Rightarrow> float2 \<Rightarrow> float2 \<Rightarrow> float2 \<Rightarrow> bool" where
  "line2seg2d_exact origin direction p0 p1 =
     (let A0 = direction;
          A1 = vsub2 p0 p1;
          det = fsub (fmul (x2 A0) (y2 A1)) (fmul (y2 A0) (x2 A1));
          Ai0 = vdiv2 (Float2 (y2 A1) (fneg (x2 A1))) det;
          Ai1 = vdiv2 (Float2 (fneg (y2 A0)) (x2 A0)) det;
          B = vsub2 p0 origin
      in exact_vsub2 p0 p1 \<and>
         exact_mul (x2 A0) (y2 A1) \<and> exact_mul (y2 A0) (x2 A1) \<and>
         exact_sub (fmul (x2 A0) (y2 A1)) (fmul (y2 A0) (x2 A1)) \<and>
         exact_vdiv2 (Float2 (y2 A1) (fneg (x2 A1))) det \<and>
         exact_vdiv2 (Float2 (fneg (y2 A0)) (x2 A0)) det \<and>
         exact_vsub2 p0 origin \<and>
         exact_dot2 Ai0 B \<and> exact_dot2 Ai1 B)"

text \<open>
  The relation of the source's comment, \<open>origin + k*direction = p0 + l*(p1-p0)\<close>, between
  the real values of the arguments.
\<close>

definition solves2d :: "float2 \<Rightarrow> float2 \<Rightarrow> float2 \<Rightarrow> float2 \<Rightarrow> real \<Rightarrow> real \<Rightarrow> bool" where
  "solves2d origin direction p0 p1 k l =
     (valof (x2 origin) + k * valof (x2 direction) =
        valof (x2 p0) + l * (valof (x2 p1) - valof (x2 p0)) \<and>
      valof (y2 origin) + k * valof (y2 direction) =
        valof (y2 p0) + l * (valof (y2 p1) - valof (y2 p0)))"

definition exact_vsub3 :: "float3 \<Rightarrow> float3 \<Rightarrow> bool" where
  "exact_vsub3 a b = (exact_sub (x3 a) (x3 b) \<and> exact_sub (y3 a) (y3 b) \<and> exact_sub (z3 a) (z3 b))"

definition exact_vdiv3 :: "float3 \<Rightarrow> float \<Rightarrow> bool" where
  "exact_vdiv3 a d = (exact_div (x3 a) d \<and> exact_div (y3 a) d \<and> exact_div (z3 a) d)"

definition exact_dot3 :: "float3 \<Rightarrow> float3 \<Rightarrow> bool" where
  "exact_dot3 a b = (exact_mul (x3 a) (x3 b) \<and> exact_mul (y3 a) (y3 b) \<and>
                     exact_mul (z3 a) (z3 b) \<and>
                     exact_add (fmul (x3 a) (x3 b)) (fmul (y3 a) (y3 b)) \<and>
                     exact_add (fadd (fmul (x3 a) (x3 b)) (fmul (y3 a) (y3 b)))
                               (fmul (z3 a) (z3 b)))"

text \<open>A term \<open>s * (a*b - c*d)\<close> of the source, \<open>s\<close> being \<open>1.0f\<close> or \<open>-1.0f\<close>.\<close>

definition exact_cofactor :: "float \<Rightarrow> float \<Rightarrow> float \<Rightarrow> float \<Rightarrow> float \<Rightarrow> bool" where
  "exact_cofactor s a b c d =
     (exact_mul a b \<and> exact_mul c d \<and> exact_sub (fmul a b) (fmul c d) \<and>
      exact_mul s (fsub (fmul a b) (fmul c d)))"

definition line2tri3d_exact :: "float3 \<Rightarrow> float3 \<Rightarrow> float3 \<Rightarrow> float3 \<Rightarrow> float3 \<Rightarrow> bool" where
  "line2tri3d_exact origin direction p0 p1 p2 =
     (let A0 = direction; A1 = vsub3 p0 p1; A2 = vsub3 p0 p2;
          m1 = fsub (fmul (y3 A1) (z3 A2)) (fmul (z3 A1) (y3 A2));
          m2 = fsub (fmul (x3 A1) (z3 A2)) (fmul (z3 A1) (x3 A2));
          m3 = fsub (fmul (x3 A1) (y3 A2)) (fmul (y3 A1) (x3 A2));
          det = fadd (fsub (fmul (x3 A0) m1) (fmul (y3 A0) m2)) (fmul (z3 A0) m3);
          B = vsub3 p0 origin;
          res = line2tri3d_res origin direction p0 p1 p2
      in exact_vsub3 p0 p1 \<and> exact_vsub3 p0 p2 \<and>
         exact_mul (x3 A0) m1 \<and> exact_mul (y3 A0) m2 \<and> exact_mul (z3 A0) m3 \<and>
         exact_sub (fmul (x3 A0) m1) (fmul (y3 A0) m2) \<and>
         exact_add (fsub (fmul (x3 A0) m1) (fmul (y3 A0) m2)) (fmul (z3 A0) m3) \<and>
         exact_vsub3 p0 origin \<and>
         exact_cofactor f_one (y3 A1) (z3 A2) (z3 A1) (y3 A2) \<and>
         exact_cofactor f_minus_one (x3 A1) (z3 A2) (z3 A1) (x3 A2) \<and>
         exact_cofactor f_one (x3 A1) (y3 A2) (y3 A1) (x3 A2) \<and>
         exact_cofactor f_minus_one (y3 A0) (z3 A2) (z3 A0) (y3 A2) \<and>
         exact_cofactor f_one (x3 A0) (z3 A2) (z3 A0) (x3 A2) \<and>
         exact_cofactor f_minus_one (x3 A0) (y3 A2) (y3 A0) (x3 A2) \<and>
         exact_cofactor f_one (y3 A0) (z3 A1) (z3 A0) (y3 A1) \<and>
         exact_cofactor f_minus_one (x3 A0) (z3 A1) (z3 A0) (x3 A1) \<and>
         exact_cofactor f_one (x3 A0) (y3 A1) (y3 A0) (x3 A1) \<and>
         exact_vdiv3 (Float3
            (fmul f_one (fsub (fmul (y3 A1) (z3 A2)) (fmul (z3 A1) (y3 A2))))
            (fmul f_minus_one (fsub (fmul (x3 A1) (z3 A2)) (fmul (z3 A1) (x3 A2))))
            (fmul f_one (fsub (fmul (x3 A1) (y3 A2)) (fmul (y3 A1) (x3 A2))))) det \<and>
         exact_vdiv3 (Float3
            (fmul f_minus_one (fsub (fmul (y3 A0) (z3 A2)) (fmul (z3 A0) (y3 A2))))
            (fmul f_one (fsub (fmul (x3 A0) (z3 A2)) (fmul (z3 A0) (x3 A2))))
            (fmul f_minus_one (fsub (fmul (x3 A0) (y3 A2)) (fmul (y3 A0) (x3 A2))))) det \<and>
         exact_vdiv3 (Float3
            (fmul f_one (fsub (fmul (y3 A0) (z3 A1)) (fmul (z3 A0) (y3 A1))))
            (fmul f_minus_one (fsub (fmul (x3 A0) (z3 A1)) (fmul (z3 A0) (x3 A1))))
            (fmul f_one (fsub (fmul (x3 A0) (y3 A1)) (fmul (y3 A0) (x3 A1))))) det \<and>
         exact_dot3 (vdiv3 (Float3
            (fmul f_one (fsub (fmul (y3 A1) (z3 A2)) (fmul (z3 A1) (y3 A2))))
            (fmul f_minus_one (fsub (fmul (x3 A1) (z3 A2)) (fmul (z3 A1) (x3 A2))))
            (fmul f_one (fsub (fmul (x3 A1) (y3 A2)) (fmul (y3 A1) (x3 A2))))) det) B \<and>
         exact_dot3 (vdiv3 (Float3
            (fmul f_minus_one (fsub (fmul (y3 A0) (z3 A2)) (fmul (z3 A0) (y3 A2))))
            (fmul f_one (fsub (fmul (x3 A0) (z3 A2)) (fmul (z3 A0) (x3 A2))))
            (fmul f_minus_one (fsub (fmul (x3 A0) (y3 A2)) (fmul (y3 A0) (x3 A2))))) det) B \<and>
         exact_dot3 (vdiv3 (Float3
            (fmul f_one (fsub (fmul (y3 A0) (z3 A1)) (fmul (z3 A0) (y3 A1))))
            (fmul f_minus_one (fsub (fmul (x3 A0) (z3 A1)) (fmul (z3 A0) (x3 A1))))
            (fmul f_one (fsub (fmul (x3 A0) (y3 A1)) (fmul (y3 A0) (x3 A1))))) det) B \<and>
         exact_add (y3 res) (z3 res))"

text \<open>
  The relation \<open>origin + k*direction = p0 + l*(p1-p0) + m*(p2-p0)\<close>.
\<close>

definition solves3d ::
  "float3 \<Rightarrow> float3 \<Rightarrow> float3 \<Rightarrow> float3 \<Rightarrow> float3 \<Rightarrow> real \<Rightarrow> real \<Rightarrow> real \<Rightarrow> bool" where
  "solves3d origin direction p0 p1 p2 k l m =
     (valof (x3 origin) + k * valof (x3 direction) =
        valof (x3 p0) + l * (valof (x3 p1) - valof (x3 p0)) + m * (valof (x3 p2) - valof (x3 p0)) \<and>
      valof (y3 origin) + k * valof (y3 direction) =
        valof (y3 p0) + l * (valof (y3 p1) - valof (y3 p0)) + m * (valof (y3 p2) - valof (y3 p0)) \<and>
      valof (z3 origin) + k * valof (z3 direction) =
        valof (z3 p0) + l * (valof (z3 p1) - valof (z3 p0)) + m * (valof (z3 p2) - valof (z3 p0)))"

text \<open>
  The operations that a call of \<open>line2seg2d\<close> performs: those of the determinant,
  and the others only when the determinant does not compare equal to zero.
\<close>

definition line2seg2d_det_exact :: "float2 \<Rightarrow> float2 \<Rightarrow> float2 \<Rightarrow> bool" where
  "line2seg2d_det_exact direction p0 p1 =
     (let A0 = direction; A1 = vsub2 p0 p1
      in exact_vsub2 p0 p1 \<and>
         exact_mul (x2 A0) (y2 A1) \<and> exact_mul (y2 A0) (x2 A1) \<and>
         exact_sub (fmul (x2 A0) (y2 A1)) (fmul (y2 A0) (x2 A1)))"

definition line2seg2d_performed_exact :: "float2 \<Rightarrow> float2 \<Rightarrow> float2 \<Rightarrow> float2 \<Rightarrow> bool" where
  "line2seg2d_performed_exact origin direction p0 p1 =
     (line2seg2d_det_exact direction p0 p1 \<and>
      (if feq (line2seg2d_det direction p0 p1) f_zero then True
       else line2seg2d_exact origin direction p0 p1))"

text \<open>
  \<open>opposite a b\<close>: the number \<open>a\<close> is \<open>-b\<close>, up to the sign of a zero; a
  not-a-number is opposite to a not-a-number only.
\<close>

definition opposite :: "float \<Rightarrow> float \<Rightarrow> bool" where
  "opposite a b = (case a of NaN \<Rightarrow> b = NaN | Inf s \<Rightarrow> b = Inf (\<not> s)
                   | Fin s m \<Rightarrow> b = Fin (\<not> s) m \<or> (m = 0 \<and> b = Fin s 0))"

section \<open>Rounding\<close>

lemma bitlen_eqI: "2 ^ n \<le> z \<Longrightarrow> z < 2 ^ Suc n \<Longrightarrow> bitlen z = int n + 1"
proof (rule antisym)
  assume "z < 2 ^ Suc n"
  then show "bitlen z \<le> int n + 1"
    by (simp add: bitlen_le_iff_power nat_add_distrib)
next
  assume "2 ^ n \<le> z"
  then show "int n + 1 \<le> bitlen z"
    by (simp add: bitlen_ge_iff_power nat_add_distrib)
qed

lemma rhe_of_int: "rhe (of_int n) = n"
  by (simp add: rhe_def)

lemma round32_zero: "round32 0 = 0"
  by (simp add: round32_def rhe_def)

lemma round32_int_mult:
  assumes "0 \<le> n" "n < 2 ^ 24"
  shows "round32 (of_int n * 2 ^ j / 2 ^ 149) = of_int n * 2 ^ j / 2 ^ 149"
proof (cases "n = 0")
  case True
  then show ?thesis by (simp add: round32_zero)
next
  case False
  with assms have pos: "0 < n" by simp
  define y :: real where "y = of_int n * 2 ^ j"
  have fl: "\<lfloor>y\<rfloor> = n * 2 ^ j"
    unfolding y_def by (metis floor_of_int of_int_mult of_int_numeral of_int_power)
  have bl: "bitlen \<lfloor>y\<rfloor> = bitlen n + int j"
    unfolding fl using pos by simp
  have "bitlen n \<le> 24"
    using assms by (simp add: bitlen_le_iff_power)
  define sh where "sh = nat (bitlen \<lfloor>y\<rfloor> - 24)"
  have shj: "sh \<le> j"
    unfolding sh_def bl using \<open>bitlen n \<le> 24\<close> by simp
  have "y / 2 ^ sh = of_int n * 2 ^ (j - sh)"
    unfolding y_def using shj by (simp add: power_diff)
  also have "\<dots> = of_int (n * 2 ^ (j - sh))" by simp
  finally have q: "y / 2 ^ sh = of_int (n * 2 ^ (j - sh))" .
  have "rhe (y / 2 ^ sh) = n * 2 ^ (j - sh)"
    unfolding q by (rule rhe_of_int)
  then have "real_of_int (rhe (y / 2 ^ sh) * 2 ^ sh) = of_int n * 2 ^ (j - sh) * 2 ^ sh"
    by simp
  also have "\<dots> = y"
    unfolding y_def using shj by (simp add: power_add [symmetric])
  finally have "real_of_int (rhe (y / 2 ^ sh) * 2 ^ sh) = y" .
  then show ?thesis
    unfolding round32_def Let_def
    by (simp add: y_def [symmetric] sh_def [symmetric])
qed

lemma round32_normal:
  assumes "2 ^ 23 \<le> x * 2 ^ k" "x * 2 ^ k < 2 ^ 24" "k \<le> 149"
  shows "round32 x = of_int (rhe (x * 2 ^ k)) / 2 ^ k"
proof -
  define c where "c = 149 - k"
  have k: "149 = k + c" using assms(3) by (simp add: c_def)
  define y where "y = x * 2 ^ 149"
  have y: "y = (x * 2 ^ k) * 2 ^ c"
    unfolding y_def k by (simp add: power_add)
  have lo: "2 ^ (23 + c) \<le> y"
    unfolding y power_add using assms(1) by simp
  have hi: "y < 2 ^ (24 + c)"
    unfolding y power_add using assms(2) by simp
  have "(2::int) ^ (23 + c) \<le> \<lfloor>y\<rfloor>"
    using lo by (simp add: le_floor_iff)
  moreover have "\<lfloor>y\<rfloor> < 2 ^ Suc (23 + c)"
    using hi by (simp add: floor_less_iff)
  ultimately have "bitlen \<lfloor>y\<rfloor> = int (23 + c) + 1"
    by (rule bitlen_eqI)
  then have sh: "nat (bitlen \<lfloor>y\<rfloor> - 24) = c" by simp
  have q: "y / 2 ^ c = x * 2 ^ k" unfolding y by simp
  have "round32 x = of_int (rhe (x * 2 ^ k) * 2 ^ c) / 2 ^ 149"
    unfolding round32_def Let_def y_def [symmetric] sh q ..
  also have "\<dots> = of_int (rhe (x * 2 ^ k)) / 2 ^ k"
    unfolding k by (simp add: power_add)
  finally show ?thesis .
qed

lemma r_third: "round32 (1/3) = 11184811 / 2 ^ 25"
proof -
  have "round32 (1/3) = of_int (rhe ((1/3) * 2 ^ 25)) / 2 ^ 25"
    by (rule round32_normal) simp_all
  also have "rhe ((1/3) * 2 ^ 25) = 11184811"
    by (simp add: rhe_def)
  finally show ?thesis by simp
qed

lemma r_half: "round32 (1/2) = 1/2"
  using round32_int_mult [of 1 148] by simp

lemma r_one: "round32 1 = 1"
  using round32_int_mult [of 1 149] by simp

lemma r_two: "round32 2 = 2"
  using round32_int_mult [of 2 149] by simp

lemmas fdefs = fsub_def f_zero_def f_one_def f_minus_one_def between_def
  vsub2_def vdiv2_def dot2_def vsub3_def vdiv3_def dot3_def rnd_def Let_def

lemma r_four: "round32 4 = 4"
  using round32_int_mult [of 4 149] by simp

lemma r_quarter: "round32 (1/4) = 1/4"
  using round32_int_mult [of 1 147] by simp

lemma r_3quarter: "round32 (3/4) = 3/4"
  using round32_int_mult [of 3 147] by simp

lemma r_three: "round32 3 = 3"
  using round32_int_mult [of 3 149] by simp
lemma r_five: "round32 5 = 5"
  using round32_int_mult [of 5 149] by simp
lemma r_six: "round32 6 = 6"
  using round32_int_mult [of 6 149] by simp
lemma r_twelve: "round32 12 = 12"
  using round32_int_mult [of 12 149] by simp
lemma r_fl_third: "round32 (11184811 / 33554432) = 11184811 / 33554432"
  using round32_int_mult [of 11184811 124] by simp
lemma r_fl_two_thirds: "round32 (11184811 / 16777216) = 11184811 / 16777216"
  using round32_int_mult [of 11184811 125] by simp
lemma r_fl_third_low: "round32 (5592405 / 16777216) = 5592405 / 16777216"
  using round32_int_mult [of 5592405 125] by simp
lemma r_third': "round32 (1 / 3) = 11184811 / 33554432"
  using r_third by simp
lemma r_five_thirds: "round32 (5 / 3) = 13981013 / 8388608"
proof -
  have "round32 (5 / 3) = of_int (rhe ((5 / 3) * 2 ^ 23)) / 2 ^ 23"
    by (rule round32_normal) simp_all
  also have "rhe ((5 / 3) * 2 ^ 23) = 13981013"
    by (simp add: rhe_def)
  finally show ?thesis by simp
qed
lemma r_five_fl_third: "round32 (55924055 / 33554432) = 6990507 / 4194304"
proof -
  have "round32 (55924055 / 33554432) = of_int (rhe ((55924055 / 33554432) * 2 ^ 23)) / 2 ^ 23"
    by (rule round32_normal) simp_all
  also have "rhe ((55924055 / 33554432) * 2 ^ 23) = 13981014"
    by (simp add: rhe_def)
  finally show ?thesis by simp
qed
lemma r_ulp: "round32 (1 / 8388608) = 1 / 8388608"
  using round32_int_mult [of 1 126] by simp
lemma r_fl_five_thirds: "round32 (13981013 / 8388608) = 13981013 / 8388608"
  using round32_int_mult [of 13981013 126] by simp

lemma r_pow_m99:
  "round32 (1 / 633825300114114700748351602688) = 1 / 633825300114114700748351602688"
  using round32_int_mult [of 1 50] by simp

lemma r_pow_100: "round32 1267650600228229401496703205376 = 1267650600228229401496703205376"
  using round32_int_mult [of 1 249] by simp

lemma r_pow_m30: "round32 (1 / 1073741824) = 1 / 1073741824"
  using round32_int_mult [of 1 119] by simp

lemma r_one_plus: "round32 (1073741825 / 1073741824) = 1"
proof -
  have "round32 (1073741825 / 1073741824)
          = of_int (rhe ((1073741825 / 1073741824) * 2 ^ 23)) / 2 ^ 23"
    by (rule round32_normal) simp_all
  also have "rhe ((1073741825 / 1073741824) * 2 ^ 23) = 8388608"
    by (simp add: rhe_def)
  finally show ?thesis by simp
qed

lemmas rounds = round32_zero r_one r_two r_three r_four r_five r_six r_twelve r_half r_quarter
  r_3quarter r_third' r_fl_third r_fl_two_thirds r_fl_third_low r_five_thirds r_five_fl_third
  r_ulp r_fl_five_thirds r_pow_m99 r_pow_100 r_pow_m30 r_one_plus

section \<open>The operations stay within binary32\<close>

lemma rhe_bounds: "\<lfloor>q\<rfloor> \<le> rhe q \<and> rhe q \<le> \<lfloor>q\<rfloor> + 1"
  by (simp add: rhe_def Let_def)

lemma round32_form:
  assumes "0 \<le> x"
  shows "\<exists>n j. 0 \<le> n \<and> n < 2 ^ 24 \<and> round32 x = of_int n * 2 ^ j / 2 ^ 149"
proof -
  define y where "y = x * 2 ^ 149"
  define sh where "sh = nat (bitlen \<lfloor>y\<rfloor> - 24)"
  define n where "n = rhe (y / 2 ^ sh)"
  have y0: "0 \<le> y" using assms by (simp add: y_def)
  have "round32 x = of_int (n * 2 ^ sh) / 2 ^ 149"
    by (simp only: round32_def Let_def y_def sh_def n_def)
  also have "real_of_int (n * 2 ^ sh) = of_int n * 2 ^ sh"
    by (simp only: of_int_mult of_int_power of_int_numeral)
  finally have r: "round32 x = of_int n * 2 ^ sh / 2 ^ 149" .
  have q0: "0 \<le> y / 2 ^ sh" using y0 by simp
  have n0: "0 \<le> n"
    using rhe_bounds [of "y / 2 ^ sh"] q0 unfolding n_def by (smt (verit) zero_le_floor)
  have ylt: "y < 2 ^ (sh + 24)"
  proof -
    have "bitlen \<lfloor>y\<rfloor> \<le> int (sh + 24)" unfolding sh_def by simp
    then have "\<lfloor>y\<rfloor> < 2 ^ nat (int (sh + 24))"
      by (simp only: bitlen_le_iff_power)
    then have "\<lfloor>y\<rfloor> < 2 ^ (sh + 24)"
      by (simp only: nat_int)
    then show ?thesis by (simp add: floor_less_iff)
  qed
  have "y / 2 ^ sh < 2 ^ 24"
    using ylt by (simp add: power_add field_simps)
  then have "\<lfloor>y / 2 ^ sh\<rfloor> < 2 ^ 24"
    by (simp add: floor_less_iff)
  then have n24: "n \<le> 2 ^ 24"
    using rhe_bounds [of "y / 2 ^ sh"] unfolding n_def by linarith
  show ?thesis
  proof (cases "n = 2 ^ 24")
    case True
    have "round32 x = of_int (2 ^ 23) * 2 ^ (sh + 1) / 2 ^ 149"
      unfolding r True by simp
    moreover have "(0::int) \<le> 2 ^ 23" "(2::int) ^ 23 < 2 ^ 24" by simp_all
    ultimately show ?thesis by blast
  next
    case False
    then have "n < 2 ^ 24" using n24 by simp
    then show ?thesis using n0 r by blast
  qed
qed

lemma round32_nonneg: "0 \<le> x \<Longrightarrow> 0 \<le> round32 x"
proof -
  assume "0 \<le> x"
  then obtain n :: int and j :: nat
    where "0 \<le> n" and r: "round32 x = of_int n * 2 ^ j / 2 ^ 149"
    using round32_form by blast
  then show ?thesis
    unfolding r by (intro divide_nonneg_pos mult_nonneg_nonneg) simp_all
qed

lemma round32_idem: "0 \<le> x \<Longrightarrow> round32 (round32 x) = round32 x"
proof -
  assume "0 \<le> x"
  then obtain n :: int and j :: nat
    where "0 \<le> n" "n < 2 ^ 24" and r: "round32 x = of_int n * 2 ^ j / 2 ^ 149"
    using round32_form by blast
  then show ?thesis
    unfolding r by (intro round32_int_mult)
qed

lemma binary32_rnd: "0 \<le> x \<Longrightarrow> binary32 (rnd s x)"
  by (simp add: binary32_def rnd_def Let_def round32_nonneg round32_idem not_le)

lemma binary32_zero: "binary32 (Fin s 0)"
  by (simp add: binary32_def round32_zero)

lemma binary32_special: "binary32 NaN" "binary32 (Inf s)"
  by (simp_all add: binary32_def)

lemma binary32_mag: "binary32 (Fin s m) \<Longrightarrow> 0 \<le> m"
  by (simp add: binary32_def)

lemma binary32_fneg: "binary32 a \<Longrightarrow> binary32 (fneg a)"
  by (cases a) (simp_all add: binary32_def)

lemma binary32_fadd: "binary32 (fadd a b)"
  by (cases a; cases b) (simp_all add: binary32_rnd binary32_zero binary32_special Let_def)

lemma binary32_fsub: "binary32 (fsub a b)"
  by (simp add: fsub_def binary32_fadd)

lemma binary32_fmul: "binary32 a \<Longrightarrow> binary32 b \<Longrightarrow> binary32 (fmul a b)"
  by (cases a; cases b)
    (auto simp: binary32_special intro!: binary32_rnd mult_nonneg_nonneg dest: binary32_mag)

lemma binary32_fdiv: "binary32 a \<Longrightarrow> binary32 b \<Longrightarrow> binary32 (fdiv a b)"
  by (cases a; cases b)
    (auto simp: binary32_special binary32_zero intro!: binary32_rnd divide_nonneg_nonneg
      dest: binary32_mag)

lemma binary32_line2seg2d: "binary32 (line2seg2d origin direction p0 p1)"
  by (simp add: line2seg2d_def Let_def dot2_def binary32_fadd binary32_special)

lemma binary32_line2tri3d: "binary32 (line2tri3d origin direction p0 p1 p2)"
  by (simp add: line2tri3d_def Let_def dot3_def binary32_fadd binary32_special)

section \<open>A rounded sum that is at most one\<close>

lemma rhe_above_half:
  assumes "of_int n + 1 / 2 < q"
  shows "n + 1 \<le> rhe q"
proof (cases "\<lfloor>q\<rfloor> = n")
  case True
  then have "1 / 2 < q - of_int \<lfloor>q\<rfloor>" using assms by simp
  then show ?thesis using True by (simp add: rhe_def Let_def)
next
  case False
  have "n \<le> \<lfloor>q\<rfloor>" using assms by (simp add: le_floor_iff)
  then have "n + 1 \<le> \<lfloor>q\<rfloor>" using False by simp
  then show ?thesis using rhe_bounds [of q] by simp
qed

lemma round32_above_one:
  assumes "1 + 1 / 2 ^ 24 < x" "x \<le> 2"
  shows "1 < round32 x"
proof (cases "x = 2")
  case True
  then show ?thesis by (simp add: r_two)
next
  case False
  with assms have lt: "x < 2" by simp
  define q where "q = x * 2 ^ 23"
  have lo: "of_int 8388608 + 1 / 2 < q"
    using assms(1) unfolding q_def by simp
  have b1: "2 ^ 23 \<le> x * 2 ^ 23" using assms(1) by simp
  have b2: "x * 2 ^ 23 < 2 ^ 24" using lt by simp
  have r: "round32 x = of_int (rhe q) / 2 ^ 23"
    unfolding q_def using b1 b2 by (rule round32_normal) simp
  have "8388608 + 1 \<le> rhe q"
    using lo by (rule rhe_above_half)
  then have "8388609 \<le> rhe q" by simp
  then have "real_of_int 8388609 \<le> of_int (rhe q)"
    by (simp only: of_int_le_iff)
  then have "(8388609 :: real) \<le> of_int (rhe q)" by simp
  then show ?thesis unfolding r by simp
qed

lemma fadd_le_one_real:
  assumes "is_finite a" "is_finite b" "0 \<le> valof a" "valof a \<le> 1" "0 \<le> valof b" "valof b \<le> 1"
    and "fle (fadd a b) f_one"
  shows "valof a + valof b \<le> 1 + 1 / 2 ^ 24"
proof (rule ccontr)
  assume "\<not> valof a + valof b \<le> 1 + 1 / 2 ^ 24"
  then have gt: "1 + 1 / 2 ^ 24 < valof a + valof b" by simp
  have le: "valof a + valof b \<le> 2" using assms(4,6) by simp
  have r: "1 < round32 (valof a + valof b)"
    using gt le by (rule round32_above_one)
  obtain s m t n where ab: "a = Fin s m" "b = Fin t n"
    using assms(1,2) by (cases a; cases b) simp_all
  have pos: "0 < valof a + valof b" using gt by simp
  have "fadd a b = rnd False (valof a + valof b)"
    using pos unfolding ab by (simp add: Let_def)
  then have "\<not> fle (fadd a b) f_one"
    using r by (simp add: rnd_def Let_def f_one_def)
  with assms(7) show False by simp
qed

lemma between_unit_finite:
  "between f_zero a f_one \<Longrightarrow> is_finite a \<and> 0 \<le> valof a \<and> valof a \<le> 1"
  by (cases a) (auto simp: between_def f_zero_def f_one_def)

section \<open>The parts of the two functions\<close>

lemma line2seg2d_alt:
  "line2seg2d origin direction p0 p1 =
     (if feq (line2seg2d_det direction p0 p1) f_zero then NaN
      else if accept2d (line2seg2d_res origin direction p0 p1)
           then x2 (line2seg2d_res origin direction p0 p1) else NaN)"
  by (simp add: line2seg2d_def line2seg2d_det_def line2seg2d_res_def accept2d_def Let_def)

lemma line2tri3d_alt:
  "line2tri3d origin direction p0 p1 p2 =
     (if feq (line2tri3d_det direction p0 p1 p2) f_zero then NaN
      else if accept3d (line2tri3d_res origin direction p0 p1 p2)
           then x3 (line2tri3d_res origin direction p0 p1 p2) else NaN)"
  by (simp add: line2tri3d_def line2tri3d_det_def line2tri3d_res_def accept3d_def Let_def)

lemma fle_NaN_right: "fle a NaN = False" by (cases a) simp_all
lemma feq_NaN_right: "feq a NaN = False" by (cases a) simp_all
lemma fadd_NaN_right: "fadd a NaN = NaN" by (cases a) simp_all
lemma fmul_NaN_right: "fmul a NaN = NaN" by (cases a) simp_all
lemma fdiv_NaN_right: "fdiv a NaN = NaN" by (cases a) simp_all
lemma fsub_NaN_left: "fsub NaN b = NaN" by (simp add: fsub_def)
lemma fsub_NaN_right: "fsub a NaN = NaN" by (simp add: fsub_def fadd_NaN_right)

lemmas nan_simps = fle_NaN_right feq_NaN_right fadd_NaN_right fmul_NaN_right fdiv_NaN_right
  fsub_NaN_left fsub_NaN_right

lemma fle_zero_iff: "fle f_zero k \<longleftrightarrow> k = Inf False \<or> (is_finite k \<and> 0 \<le> valof k)"
  by (cases k) (auto simp: f_zero_def)

section \<open>Zeros and not-a-numbers\<close>

lemma rnd_zero: "rnd s 0 = Fin s 0"
  by (simp add: rnd_def round32_zero)

lemma zn_fneg: "zero_or_nan a \<Longrightarrow> zero_or_nan (fneg a)"
  by (cases a) (simp_all add: zero_or_nan_def)

lemma zn_fadd: "zero_or_nan a \<Longrightarrow> zero_or_nan b \<Longrightarrow> zero_or_nan (fadd a b)"
  by (cases a; cases b) (simp_all add: zero_or_nan_def)

lemma zn_fsub: "zero_or_nan a \<Longrightarrow> zero_or_nan b \<Longrightarrow> zero_or_nan (fsub a b)"
  by (simp add: fsub_def zn_fadd zn_fneg)

lemma zn_fmul_right: "zero_or_nan b \<Longrightarrow> zero_or_nan (fmul a b)"
  by (cases a; cases b) (simp_all add: zero_or_nan_def rnd_zero)

lemma zn_fmul_left: "zero_or_nan a \<Longrightarrow> zero_or_nan (fmul a b)"
  by (cases a; cases b) (simp_all add: zero_or_nan_def rnd_zero)

lemma zn_fsub_feq: "feq a b \<Longrightarrow> zero_or_nan (fsub a b)"
  by (cases a; cases b) (auto simp: zero_or_nan_def fsub_def split: if_splits)

lemma zn_fsub_same: "zero_or_nan (fsub a a)"
  by (cases a) (auto simp: zero_or_nan_def fsub_def)

lemma zn_cases: "zero_or_nan a \<Longrightarrow> a = NaN \<or> feq a f_zero"
  by (cases a) (simp_all add: zero_or_nan_def f_zero_def)

lemma seg2d_det_NaN:
  "line2seg2d_det direction p0 p1 = NaN \<Longrightarrow> line2seg2d origin direction p0 p1 = NaN"
  by (simp add: line2seg2d_alt accept2d_def line2seg2d_res_def vdiv2_def dot2_def Let_def nan_simps)

lemma tri3d_det_NaN:
  "line2tri3d_det direction p0 p1 p2 = NaN \<Longrightarrow> line2tri3d origin direction p0 p1 p2 = NaN"
  by (simp add: line2tri3d_alt accept3d_def line2tri3d_res_def vdiv3_def dot3_def Let_def nan_simps)

lemma seg2d_det_zn:
  "zero_or_nan (line2seg2d_det direction p0 p1) \<Longrightarrow> line2seg2d origin direction p0 p1 = NaN"
  using zn_cases [of "line2seg2d_det direction p0 p1"] seg2d_det_NaN [of direction p0 p1 origin]
  by (auto simp: line2seg2d_alt)

lemma tri3d_det_zn:
  "zero_or_nan (line2tri3d_det direction p0 p1 p2) \<Longrightarrow> line2tri3d origin direction p0 p1 p2 = NaN"
  using zn_cases [of "line2tri3d_det direction p0 p1 p2"]
    tri3d_det_NaN [of direction p0 p1 p2 origin]
  by (auto simp: line2tri3d_alt)

lemma seg2d_degenerate_det:
  assumes "zero_or_nan (fsub (x2 p0) (x2 p1))" "zero_or_nan (fsub (y2 p0) (y2 p1))"
  shows "zero_or_nan (line2seg2d_det direction p0 p1)"
  unfolding line2seg2d_det_def Let_def vsub2_def float2.sel
  by (intro zn_fsub zn_fmul_right assms)

section \<open>Exact operations\<close>

lemma exact_add_val: "exact_add a b \<Longrightarrow> valof (fadd a b) = valof a + valof b"
  by (simp add: exact_add_def)
lemma exact_sub_val: "exact_sub a b \<Longrightarrow> valof (fsub a b) = valof a - valof b"
  by (simp add: exact_sub_def)
lemma exact_mul_val: "exact_mul a b \<Longrightarrow> valof (fmul a b) = valof a * valof b"
  by (simp add: exact_mul_def)
lemma exact_div_val: "exact_div a b \<Longrightarrow> valof (fdiv a b) = valof a / valof b"
  by (simp add: exact_div_def)
lemma exact_add_fin: "exact_add a b \<Longrightarrow> is_finite (fadd a b)"
  by (simp add: exact_add_def)
lemma exact_sub_fin: "exact_sub a b \<Longrightarrow> is_finite (fsub a b)"
  by (simp add: exact_sub_def)
lemma exact_mul_fin: "exact_mul a b \<Longrightarrow> is_finite (fmul a b)"
  by (simp add: exact_mul_def)
lemma exact_div_fin: "exact_div a b \<Longrightarrow> is_finite (fdiv a b)"
  by (simp add: exact_div_def)
lemma valof_fneg: "valof (fneg a) = - valof a"
  by (cases a) simp_all

lemmas exact_vals = exact_add_val exact_sub_val exact_mul_val exact_div_val valof_fneg
lemmas exact_fins = exact_add_fin exact_sub_fin exact_mul_fin exact_div_fin

lemma feq_zero_finite: "is_finite a \<Longrightarrow> feq a f_zero \<longleftrightarrow> valof a = 0"
  by (cases a) (simp_all add: f_zero_def)

lemma fle_zero_finite: "is_finite a \<Longrightarrow> fle f_zero a \<longleftrightarrow> 0 \<le> valof a"
  by (cases a) (simp_all add: f_zero_def)

lemma fle_one_finite: "is_finite a \<Longrightarrow> fle a f_one \<longleftrightarrow> valof a \<le> 1"
  by (cases a) (simp_all add: f_one_def)

lemma cramer2_core:
  fixes a b u v dx dy D :: real
  assumes "D \<noteq> 0" and "D = dx * a - dy * b"
  shows "(a / D * u + (- b) / D * v) * dx + ((- dy) / D * u + dx / D * v) * b = u"
    and "(a / D * u + (- b) / D * v) * dy + ((- dy) / D * u + dx / D * v) * a = v"
proof -
  have "(a / D * u + (- b) / D * v) * dx + ((- dy) / D * u + dx / D * v) * b
          = u * (dx * a - dy * b) / D"
    using assms(1) by (simp add: field_simps)
  then show "(a / D * u + (- b) / D * v) * dx + ((- dy) / D * u + dx / D * v) * b = u"
    using assms by simp
  have "(a / D * u + (- b) / D * v) * dy + ((- dy) / D * u + dx / D * v) * a
          = v * (dx * a - dy * b) / D"
    using assms(1) by (simp add: field_simps)
  then show "(a / D * u + (- b) / D * v) * dy + ((- dy) / D * u + dx / D * v) * a = v"
    using assms by simp
qed

lemma cramer2:
  fixes ox oy dx dy px py qx qy D :: real
  assumes "D \<noteq> 0" and "D = dx * (py - qy) - dy * (px - qx)"
  shows "ox + ((py - qy) / D * (px - ox) + (- (px - qx)) / D * (py - oy)) * dx
           = px + ((- dy) / D * (px - ox) + dx / D * (py - oy)) * (qx - px)"
    and "oy + ((py - qy) / D * (px - ox) + (- (px - qx)) / D * (py - oy)) * dy
           = py + ((- dy) / D * (px - ox) + dx / D * (py - oy)) * (qy - py)"
proof -
  note c = cramer2_core [OF assms, of "px - ox" "py - oy"]
  have sw: "X * (q - p) = - (X * (p - q))" for X p q :: real
    by (simp add: algebra_simps)
  have "((- dy) / D * (px - ox) + dx / D * (py - oy)) * (qx - px)
          = - (((- dy) / D * (px - ox) + dx / D * (py - oy)) * (px - qx))"
    by (rule sw)
  with c(1) show "ox + ((py - qy) / D * (px - ox) + (- (px - qx)) / D * (py - oy)) * dx
           = px + ((- dy) / D * (px - ox) + dx / D * (py - oy)) * (qx - px)"
    by linarith
  have "((- dy) / D * (px - ox) + dx / D * (py - oy)) * (qy - py)
          = - (((- dy) / D * (px - ox) + dx / D * (py - oy)) * (py - qy))"
    by (rule sw)
  with c(2) show "oy + ((py - qy) / D * (px - ox) + (- (px - qx)) / D * (py - oy)) * dy
           = py + ((- dy) / D * (px - ox) + dx / D * (py - oy)) * (qy - py)"
    by linarith
qed

lemma seg2d_exact_vals:
  assumes "line2seg2d_exact origin direction p0 p1"
  defines "D \<equiv> valof (x2 direction) * (valof (y2 p0) - valof (y2 p1))
               - valof (y2 direction) * (valof (x2 p0) - valof (x2 p1))"
  shows "is_finite (line2seg2d_det direction p0 p1)"
    and "valof (line2seg2d_det direction p0 p1) = D"
    and "is_finite (x2 (line2seg2d_res origin direction p0 p1))"
    and "is_finite (y2 (line2seg2d_res origin direction p0 p1))"
    and "valof (x2 (line2seg2d_res origin direction p0 p1)) =
           (valof (y2 p0) - valof (y2 p1)) / D * (valof (x2 p0) - valof (x2 origin))
           + (- (valof (x2 p0) - valof (x2 p1))) / D * (valof (y2 p0) - valof (y2 origin))"
    and "valof (y2 (line2seg2d_res origin direction p0 p1)) =
           (- valof (y2 direction)) / D * (valof (x2 p0) - valof (x2 origin))
           + valof (x2 direction) / D * (valof (y2 p0) - valof (y2 origin))"
  using assms(1) unfolding D_def
  by (simp_all add: line2seg2d_exact_def line2seg2d_det_def line2seg2d_res_def Let_def
      exact_vsub2_def exact_vdiv2_def exact_dot2_def vsub2_def vdiv2_def dot2_def
      exact_vals exact_fins)

lemma valof_consts: "valof f_zero = 0" "valof f_one = 1" "valof f_minus_one = - 1"
  by (simp_all add: f_zero_def f_one_def f_minus_one_def)

lemma cramer3_core:
  fixes a1 a2 a3 b1 b2 b3 c1 c2 c3 r1 r2 r3 D :: real
  assumes "D \<noteq> 0"
    and "D = a1 * (b2 * c3 - b3 * c2) - a2 * (b1 * c3 - b3 * c1) + a3 * (b1 * c2 - b2 * c1)"
  defines "k \<equiv> (b2 * c3 - b3 * c2) / D * r1 + (- (b1 * c3 - b3 * c1)) / D * r2
                  + (b1 * c2 - b2 * c1) / D * r3"
    and "l \<equiv> (- (a2 * c3 - a3 * c2)) / D * r1 + (a1 * c3 - a3 * c1) / D * r2
                  + (- (a1 * c2 - a2 * c1)) / D * r3"
    and "m \<equiv> (a2 * b3 - a3 * b2) / D * r1 + (- (a1 * b3 - a3 * b1)) / D * r2
                  + (a1 * b2 - a2 * b1) / D * r3"
  shows "k * a1 + l * b1 + m * c1 = r1"
    and "k * a2 + l * b2 + m * c2 = r2"
    and "k * a3 + l * b3 + m * c3 = r3"
proof -
  let ?E = "a1 * (b2 * c3 - b3 * c2) - a2 * (b1 * c3 - b3 * c1) + a3 * (b1 * c2 - b2 * c1)"
  have "k * a1 + l * b1 + m * c1 = r1 * ?E / D"
    unfolding k_def l_def m_def using assms(1) by (simp add: field_simps)
  then show "k * a1 + l * b1 + m * c1 = r1" using assms(1,2) by simp
  have "k * a2 + l * b2 + m * c2 = r2 * ?E / D"
    unfolding k_def l_def m_def using assms(1) by (simp add: field_simps)
  then show "k * a2 + l * b2 + m * c2 = r2" using assms(1,2) by simp
  have "k * a3 + l * b3 + m * c3 = r3 * ?E / D"
    unfolding k_def l_def m_def using assms(1) by (simp add: field_simps)
  then show "k * a3 + l * b3 + m * c3 = r3" using assms(1,2) by simp
qed

lemma tri3d_exact_vals:
  assumes "line2tri3d_exact origin direction p0 p1 p2"
  defines "a1 \<equiv> valof (x3 direction)" and "a2 \<equiv> valof (y3 direction)"
    and "a3 \<equiv> valof (z3 direction)"
    and "b1 \<equiv> valof (x3 p0) - valof (x3 p1)" and "b2 \<equiv> valof (y3 p0) - valof (y3 p1)"
    and "b3 \<equiv> valof (z3 p0) - valof (z3 p1)"
    and "c1 \<equiv> valof (x3 p0) - valof (x3 p2)" and "c2 \<equiv> valof (y3 p0) - valof (y3 p2)"
    and "c3 \<equiv> valof (z3 p0) - valof (z3 p2)"
    and "r1 \<equiv> valof (x3 p0) - valof (x3 origin)" and "r2 \<equiv> valof (y3 p0) - valof (y3 origin)"
    and "r3 \<equiv> valof (z3 p0) - valof (z3 origin)"
  defines "D \<equiv> a1 * (b2 * c3 - b3 * c2) - a2 * (b1 * c3 - b3 * c1) + a3 * (b1 * c2 - b2 * c1)"
  shows "is_finite (line2tri3d_det direction p0 p1 p2)"
    and "valof (line2tri3d_det direction p0 p1 p2) = D"
    and "is_finite (x3 (line2tri3d_res origin direction p0 p1 p2))"
    and "is_finite (y3 (line2tri3d_res origin direction p0 p1 p2))"
    and "is_finite (z3 (line2tri3d_res origin direction p0 p1 p2))"
    and "valof (x3 (line2tri3d_res origin direction p0 p1 p2)) =
           (b2 * c3 - b3 * c2) / D * r1 + (- (b1 * c3 - b3 * c1)) / D * r2
             + (b1 * c2 - b2 * c1) / D * r3"
    and "valof (y3 (line2tri3d_res origin direction p0 p1 p2)) =
           (- (a2 * c3 - a3 * c2)) / D * r1 + (a1 * c3 - a3 * c1) / D * r2
             + (- (a1 * c2 - a2 * c1)) / D * r3"
    and "valof (z3 (line2tri3d_res origin direction p0 p1 p2)) =
           (a2 * b3 - a3 * b2) / D * r1 + (- (a1 * b3 - a3 * b1)) / D * r2
             + (a1 * b2 - a2 * b1) / D * r3"
    and "is_finite (fadd (y3 (line2tri3d_res origin direction p0 p1 p2))
                         (z3 (line2tri3d_res origin direction p0 p1 p2)))"
    and "valof (fadd (y3 (line2tri3d_res origin direction p0 p1 p2))
                         (z3 (line2tri3d_res origin direction p0 p1 p2)))
          = valof (y3 (line2tri3d_res origin direction p0 p1 p2))
            + valof (z3 (line2tri3d_res origin direction p0 p1 p2))"
proof -
  note defs = line2tri3d_exact_def line2tri3d_det_def line2tri3d_res_def Let_def
      exact_vsub3_def exact_vdiv3_def exact_dot3_def exact_cofactor_def
      vsub3_def vdiv3_def dot3_def float3.sel
  note ex = assms(1) [unfolded defs]
  show "is_finite (line2tri3d_det direction p0 p1 p2)"
    using ex unfolding defs by (simp add: exact_fins)
  show "valof (line2tri3d_det direction p0 p1 p2) = D"
    using ex unfolding defs D_def a1_def a2_def a3_def b1_def b2_def b3_def c1_def c2_def c3_def
    by (simp add: exact_vals)
  show "is_finite (x3 (line2tri3d_res origin direction p0 p1 p2))"
    using ex unfolding defs by (simp add: exact_fins)
  show "is_finite (y3 (line2tri3d_res origin direction p0 p1 p2))"
    using ex unfolding defs by (simp add: exact_fins)
  show "is_finite (z3 (line2tri3d_res origin direction p0 p1 p2))"
    using ex unfolding defs by (simp add: exact_fins)
  show "is_finite (fadd (y3 (line2tri3d_res origin direction p0 p1 p2))
                         (z3 (line2tri3d_res origin direction p0 p1 p2)))"
    using assms(1) by (simp add: line2tri3d_exact_def Let_def exact_fins)
  show "valof (fadd (y3 (line2tri3d_res origin direction p0 p1 p2))
                         (z3 (line2tri3d_res origin direction p0 p1 p2)))
          = valof (y3 (line2tri3d_res origin direction p0 p1 p2))
            + valof (z3 (line2tri3d_res origin direction p0 p1 p2))"
    using assms(1) by (simp add: line2tri3d_exact_def Let_def exact_vals)
  show "valof (x3 (line2tri3d_res origin direction p0 p1 p2)) =
           (b2 * c3 - b3 * c2) / D * r1 + (- (b1 * c3 - b3 * c1)) / D * r2
             + (b1 * c2 - b2 * c1) / D * r3"
    using ex unfolding defs D_def a1_def a2_def a3_def b1_def b2_def b3_def c1_def c2_def c3_def
      r1_def r2_def r3_def
    by (simp add: exact_vals valof_consts)
  show "valof (y3 (line2tri3d_res origin direction p0 p1 p2)) =
           (- (a2 * c3 - a3 * c2)) / D * r1 + (a1 * c3 - a3 * c1) / D * r2
             + (- (a1 * c2 - a2 * c1)) / D * r3"
    using ex unfolding defs D_def a1_def a2_def a3_def b1_def b2_def b3_def c1_def c2_def c3_def
      r1_def r2_def r3_def
    by (simp add: exact_vals valof_consts)
  show "valof (z3 (line2tri3d_res origin direction p0 p1 p2)) =
           (a2 * b3 - a3 * b2) / D * r1 + (- (a1 * b3 - a3 * b1)) / D * r2
             + (a1 * b2 - a2 * b1) / D * r3"
    using ex unfolding defs D_def a1_def a2_def a3_def b1_def b2_def b3_def c1_def c2_def c3_def
      r1_def r2_def r3_def
    by (simp add: exact_vals valof_consts)
qed

lemma swap2_k:
  fixes ox oy px py qx qy D :: real
  assumes "D \<noteq> 0"
  shows "(qy - py) / (- D) * (qx - ox) + (- (qx - px)) / (- D) * (qy - oy)
           = (py - qy) / D * (px - ox) + (- (px - qx)) / D * (py - oy)"
  using assms by (simp add: field_simps)

lemma swap2_l:
  fixes ox oy dx dy px py qx qy D :: real
  assumes "D \<noteq> 0" and "D = dx * (py - qy) - dy * (px - qx)"
  shows "(- dy) / (- D) * (qx - ox) + dx / (- D) * (qy - oy)
           = 1 - ((- dy) / D * (px - ox) + dx / D * (py - oy))"
proof -
  have "(- dy) / (- D) * (qx - ox) + dx / (- D) * (qy - oy)
          + ((- dy) / D * (px - ox) + dx / D * (py - oy))
        = (dx * (py - qy) - dy * (px - qx)) / D"
    using assms(1) by (simp add: field_simps)
  also have "\<dots> = 1" using assms by simp
  finally show ?thesis by linarith
qed

section \<open>Opposite numbers\<close>

lemma opposite_zeros: "opposite (Fin s 0) (Fin t 0)"
  by (cases "s = t") (auto simp: opposite_def)

lemma opposite_rnd: "opposite (rnd (\<not> s) x) (rnd s x)"
  by (simp add: opposite_def rnd_def Let_def)

lemma opposite_valof: "opposite a b \<Longrightarrow> valof a = - valof b"
  by (cases a; cases b) (auto simp: opposite_def)

lemma opposite_fneg_left: "opposite (fneg a) a"
  by (cases a) (simp_all add: opposite_def)

lemma opposite_fneg_right: "opposite a (fneg a)"
  by (cases a) (simp_all add: opposite_def)

lemma fadd_Fin:
  "fadd (Fin s m) (Fin t n) =
     (if valof (Fin s m) + valof (Fin t n) = 0 then Fin (s \<and> t) 0
      else rnd (valof (Fin s m) + valof (Fin t n) < 0) \<bar>valof (Fin s m) + valof (Fin t n)\<bar>)"
  by (simp add: Let_def)

lemma fadd_commute: "fadd a b = fadd b a"
  by (cases a; cases b) (auto simp: Let_def add.commute conj_commute)

lemma opposite_fadd:
  assumes "opposite a' a" "opposite b' b"
  shows "opposite (fadd a' b') (fadd a b)"
proof (cases a)
  case NaN
  then have "a' = NaN" using assms(1) by (cases a') (auto simp: opposite_def)
  with NaN show ?thesis by (simp add: opposite_def)
next
  case (Inf s)
  then have a': "a' = Inf (\<not> s)" using assms(1) by (cases a') (auto simp: opposite_def)
  show ?thesis
    using assms(2) unfolding Inf a'
    by (cases b; cases b') (auto simp: opposite_def)
next
  case (Fin s m)
  then obtain s' where a': "a' = Fin s' m" using assms(1) by (cases a') (auto simp: opposite_def)
  show ?thesis
  proof (cases b)
    case NaN
    then have "b' = NaN" using assms(2) by (cases b') (auto simp: opposite_def)
    with NaN show ?thesis unfolding Fin a' by (simp add: opposite_def)
  next
    case (Inf t)
    then have "b' = Inf (\<not> t)" using assms(2) by (cases b') (auto simp: opposite_def)
    with Inf show ?thesis unfolding Fin a' by (simp add: opposite_def)
  next
    case b: (Fin t n)
    then obtain t' where b': "b' = Fin t' n"
      using assms(2) by (cases b') (auto simp: opposite_def)
    define v where "v = valof (Fin s m) + valof (Fin t n)"
    have "valof a' = - valof a" "valof b' = - valof b"
      using assms by (simp_all add: opposite_valof)
    then have v': "valof (Fin s' m) + valof (Fin t' n) = - v"
      unfolding Fin a' b b' v_def by simp
    have e: "fadd a b = (if v = 0 then Fin (s \<and> t) 0 else rnd (v < 0) \<bar>v\<bar>)"
      unfolding Fin b v_def by (rule fadd_Fin)
    have e': "fadd a' b' = (if - v = 0 then Fin (s' \<and> t') 0 else rnd (- v < 0) \<bar>- v\<bar>)"
      unfolding a' b' v' [symmetric] by (rule fadd_Fin)
    show ?thesis
    proof (cases "v = 0")
      case True
      then show ?thesis unfolding e e' by (simp add: opposite_zeros)
    next
      case False
      then have "(- v < 0) = (\<not> (v < 0))" by auto
      then show ?thesis
        unfolding e e' using False opposite_rnd [of "v < 0" "\<bar>v\<bar>"] by simp
    qed
  qed
qed

lemma opposite_fsub_swap: "opposite (fsub b a) (fsub a b)"
proof -
  have "opposite (fadd (fneg a) b) (fadd a (fneg b))"
    by (intro opposite_fadd opposite_fneg_left opposite_fneg_right)
  then show ?thesis
    unfolding fsub_def by (simp only: fadd_commute [of b "fneg a"])
qed

lemma opposite_fneg: "opposite a' a \<Longrightarrow> opposite (fneg a') (fneg a)"
  by (cases a; cases a') (auto simp: opposite_def)

lemma opposite_fsub: "opposite a' a \<Longrightarrow> opposite b' b \<Longrightarrow> opposite (fsub a' b') (fsub a b)"
  unfolding fsub_def by (intro opposite_fadd opposite_fneg)

lemma opposite_fmul: "opposite b' b \<Longrightarrow> opposite (fmul a b') (fmul a b)"
  by (cases a; cases b; cases b')
    (auto simp: opposite_def rnd_def Let_def round32_zero split: if_splits)

lemma opposite_det:
  "opposite (line2seg2d_det direction p1 p0) (line2seg2d_det direction p0 p1)"
  unfolding line2seg2d_det_def Let_def vsub2_def float2.sel
  by (intro opposite_fsub opposite_fmul opposite_fsub_swap)

lemma opposite_zero: "opposite a b \<Longrightarrow> feq a f_zero \<longleftrightarrow> feq b f_zero"
  by (cases a; cases b) (auto simp: opposite_def f_zero_def)

section \<open>Exact calls at the known cases\<close>

lemma seg2d_exact_hit:
  "line2seg2d_exact (Float2 (Fin False 0) (Fin False 0)) (Float2 (Fin False 1) (Fin False 0))
              (Float2 (Fin False 2) (Fin True 1)) (Float2 (Fin False 2) (Fin False 1))"
  by (simp add: line2seg2d_exact_def exact_vsub2_def exact_vdiv2_def exact_dot2_def
      exact_add_def exact_sub_def exact_mul_def exact_div_def fdefs rounds)

lemma seg2d_exact_hit_swapped:
  "line2seg2d_exact (Float2 (Fin False 0) (Fin False 0)) (Float2 (Fin False 1) (Fin False 0))
              (Float2 (Fin False 2) (Fin False 1)) (Float2 (Fin False 2) (Fin True 1))"
  by (simp add: line2seg2d_exact_def exact_vsub2_def exact_vdiv2_def exact_dot2_def
      exact_add_def exact_sub_def exact_mul_def exact_div_def fdefs rounds)

lemma tri3d_exact_hit:
  "line2tri3d_exact (Float3 (Fin False 0) (Fin False 0) (Fin False 0))
                       (Float3 (Fin False 0) (Fin False 0) (Fin False 1))
                       (Float3 (Fin True 1) (Fin True 1) (Fin False 1))
                       (Float3 (Fin False 1) (Fin True 1) (Fin False 1))
                       (Float3 (Fin False 0) (Fin False 1) (Fin False 1))"
  by (simp add: line2tri3d_exact_def line2tri3d_res_def line2tri3d_det_def
      exact_vsub3_def exact_vdiv3_def exact_dot3_def exact_cofactor_def
      exact_add_def exact_sub_def exact_mul_def exact_div_def fdefs rounds)

lemma seg2d_det_exact_hit:
  "line2seg2d_det_exact (Float2 (Fin False 1) (Fin False 0))
              (Float2 (Fin False 2) (Fin True 1)) (Float2 (Fin False 2) (Fin False 1))"
  "line2seg2d_det_exact (Float2 (Fin False 1) (Fin False 0))
              (Float2 (Fin False 2) (Fin False 1)) (Float2 (Fin False 2) (Fin True 1))"
  "line2seg2d_det_exact (Float2 (Fin False 1) (Fin False 0))
              (Float2 (Fin False 2) (Fin False 1)) (Float2 (Fin False 3) (Fin False 1))"
  "line2seg2d_det_exact (Float2 (Fin False 1) (Fin False 0))
              (Float2 (Fin False 3) (Fin False 1)) (Float2 (Fin False 2) (Fin False 1))"
  by (simp_all add: line2seg2d_det_exact_def exact_vsub2_def
      exact_add_def exact_sub_def exact_mul_def fdefs rounds)

lemma seg2d_parallel_det:
  "feq (line2seg2d_det (Float2 (Fin False 1) (Fin False 0))
              (Float2 (Fin False 2) (Fin False 1)) (Float2 (Fin False 3) (Fin False 1))) f_zero"
  "feq (line2seg2d_det (Float2 (Fin False 1) (Fin False 0))
              (Float2 (Fin False 3) (Fin False 1)) (Float2 (Fin False 2) (Fin False 1))) f_zero"
  by (simp_all add: line2seg2d_det_def fdefs rounds)

section \<open>The known cases\<close>

text \<open>
  Claim C8. In 2D, the ray from \<open>(0,0)\<close> in direction \<open>(1,0)\<close> meets the segment from
  \<open>(2,-1)\<close> to \<open>(2,1)\<close> at \<open>k = 2.0\<close>, and misses the segment from \<open>(2,1)\<close> to \<open>(2,2)\<close>:
  the function returns \<open>NAN\<close> there.
\<close>

theorem line2seg2d_known_cases:
  "line2seg2d (Float2 (Fin False 0) (Fin False 0)) (Float2 (Fin False 1) (Fin False 0))
              (Float2 (Fin False 2) (Fin True 1)) (Float2 (Fin False 2) (Fin False 1))
     = Fin False 2
   \<and> line2seg2d (Float2 (Fin False 0) (Fin False 0)) (Float2 (Fin False 1) (Fin False 0))
              (Float2 (Fin False 2) (Fin False 1)) (Float2 (Fin False 2) (Fin False 2))
     = NaN"
  by (simp add: line2seg2d_def fdefs rounds)

text \<open>
  Claim C7. In 3D, the ray from the origin in direction \<open>(0,0,1)\<close> meets the triangle
  \<open>(-1,-1,1)\<close>, \<open>(1,-1,1)\<close>, \<open>(0,1,1)\<close> at \<open>k = 1.0\<close>; in direction \<open>(0,0,-1)\<close> the
  function returns \<open>NAN\<close>: the candidate \<open>k\<close> is \<open>-1\<close>, the barycentric coordinates
  \<open>1/4\<close> and \<open>1/2\<close> are within their bounds, so that the test \<open>0.0f <= res.s0\<close> is the
  one that fails.
\<close>

theorem line2tri3d_known_cases:
  "line2tri3d (Float3 (Fin False 0) (Fin False 0) (Fin False 0))
              (Float3 (Fin False 0) (Fin False 0) (Fin False 1))
              (Float3 (Fin True 1) (Fin True 1) (Fin False 1))
              (Float3 (Fin False 1) (Fin True 1) (Fin False 1))
              (Float3 (Fin False 0) (Fin False 1) (Fin False 1)) = Fin False 1
   \<and> line2tri3d (Float3 (Fin False 0) (Fin False 0) (Fin False 0))
              (Float3 (Fin False 0) (Fin False 0) (Fin True 1))
              (Float3 (Fin True 1) (Fin True 1) (Fin False 1))
              (Float3 (Fin False 1) (Fin True 1) (Fin False 1))
              (Float3 (Fin False 0) (Fin False 1) (Fin False 1)) = NaN
   \<and> line2tri3d_res (Float3 (Fin False 0) (Fin False 0) (Fin False 0))
              (Float3 (Fin False 0) (Fin False 0) (Fin True 1))
              (Float3 (Fin True 1) (Fin True 1) (Fin False 1))
              (Float3 (Fin False 1) (Fin True 1) (Fin False 1))
              (Float3 (Fin False 0) (Fin False 1) (Fin False 1))
       = Float3 (Fin True 1) (Fin False (1 / 4)) (Fin False (1 / 2))"
  by (simp add: line2tri3d_def line2tri3d_res_def line2tri3d_det_def fdefs rounds)

section \<open>The sentinel\<close>

text \<open>
  Claim C4. In both functions a determinant that compares equal to zero makes the
  function return \<open>NAN\<close>. The comparison is \<open>det == 0\<close> of IEEE 754, which holds of
  \<open>+0\<close> and \<open>-0\<close> only, with no tolerance: the sentinel is returned exactly when the
  determinant compares equal to zero or the acceptance test fails. The functions are
  total and their only result is the returned \<open>float\<close>: there is no other failure
  channel.
\<close>

theorem zero_det_returns_nan:
  "(feq (line2seg2d_det direction p0 p1) f_zero \<longrightarrow>
      line2seg2d origin direction p0 p1 = NaN) \<and>
   (feq (line2tri3d_det direction3 q0 q1 q2) f_zero \<longrightarrow>
      line2tri3d origin3 direction3 q0 q1 q2 = NaN) \<and>
   (line2seg2d origin direction p0 p1 = NaN \<longleftrightarrow>
      feq (line2seg2d_det direction p0 p1) f_zero \<or>
      \<not> accept2d (line2seg2d_res origin direction p0 p1)) \<and>
   (line2tri3d origin3 direction3 q0 q1 q2 = NaN \<longleftrightarrow>
      feq (line2tri3d_det direction3 q0 q1 q2) f_zero \<or>
      \<not> accept3d (line2tri3d_res origin3 direction3 q0 q1 q2))"
proof -
  have n: "fle f_zero a \<Longrightarrow> a \<noteq> NaN" for a
    by (auto simp: fle_NaN_right)
  show ?thesis
    using n by (auto simp: line2seg2d_alt line2tri3d_alt accept2d_def accept3d_def)
qed

text \<open>
  The witness: a segment of length zero, the triangle \<open>(0,0,0)\<close>, \<open>(1,0,0)\<close>, \<open>(2,0,0)\<close>,
  and a call whose determinant is \<open>-2^-99\<close>, which is not zero: that call returns
  \<open>k = 2^100\<close>.
\<close>

theorem zero_det_returns_nan_witness:
  "feq (line2seg2d_det (Float2 (Fin False 1) (Fin False 0))
          (Float2 (Fin False 2) (Fin False 1)) (Float2 (Fin False 2) (Fin False 1))) f_zero
   \<and> line2seg2d (Float2 (Fin False 0) (Fin False 0)) (Float2 (Fin False 1) (Fin False 0))
          (Float2 (Fin False 2) (Fin False 1)) (Float2 (Fin False 2) (Fin False 1)) = NaN
   \<and> feq (line2tri3d_det (Float3 (Fin False 0) (Fin False 0) (Fin False 1))
          (Float3 (Fin False 0) (Fin False 0) (Fin False 0))
          (Float3 (Fin False 1) (Fin False 0) (Fin False 0))
          (Float3 (Fin False 2) (Fin False 0) (Fin False 0))) f_zero
   \<and> line2tri3d (Float3 (Fin False 0) (Fin False 0) (Fin False 0))
          (Float3 (Fin False 0) (Fin False 0) (Fin False 1))
          (Float3 (Fin False 0) (Fin False 0) (Fin False 0))
          (Float3 (Fin False 1) (Fin False 0) (Fin False 0))
          (Float3 (Fin False 2) (Fin False 0) (Fin False 0)) = NaN
   \<and> line2seg2d_det (Float2 (Fin False (1 / 2 ^ 100)) (Fin False 0))
          (Float2 (Fin False 1) (Fin True 1)) (Float2 (Fin False 1) (Fin False 1))
       = Fin True (1 / 2 ^ 99)
   \<and> accept2d (line2seg2d_res (Float2 (Fin False 0) (Fin False 0))
          (Float2 (Fin False (1 / 2 ^ 100)) (Fin False 0))
          (Float2 (Fin False 1) (Fin True 1)) (Float2 (Fin False 1) (Fin False 1)))
   \<and> line2seg2d (Float2 (Fin False 0) (Fin False 0))
          (Float2 (Fin False (1 / 2 ^ 100)) (Fin False 0))
          (Float2 (Fin False 1) (Fin True 1)) (Float2 (Fin False 1) (Fin False 1))
       = Fin False (2 ^ 100)"
proof -
  let ?o = "Float2 (Fin False 0) (Fin False 0)"
  let ?t = "Float2 (Fin False (1 / 2 ^ 100)) (Fin False 0)"
  let ?a0 = "Float2 (Fin False 1) (Fin True 1)" and ?a1 = "Float2 (Fin False 1) (Fin False 1)"
  have d2: "feq (line2seg2d_det (Float2 (Fin False 1) (Fin False 0))
          (Float2 (Fin False 2) (Fin False 1)) (Float2 (Fin False 2) (Fin False 1))) f_zero"
    by (simp add: line2seg2d_det_def fdefs rounds)
  have d3: "feq (line2tri3d_det (Float3 (Fin False 0) (Fin False 0) (Fin False 1))
          (Float3 (Fin False 0) (Fin False 0) (Fin False 0))
          (Float3 (Fin False 1) (Fin False 0) (Fin False 0))
          (Float3 (Fin False 2) (Fin False 0) (Fin False 0))) f_zero"
    by (simp add: line2tri3d_det_def fdefs rounds)
  have t: "line2seg2d_det ?t ?a0 ?a1 = Fin True (1 / 2 ^ 99)"
    by (simp add: line2seg2d_det_def fdefs rounds)
  have e: "line2seg2d ?o ?t ?a0 ?a1 = Fin False (2 ^ 100)"
    by (simp add: line2seg2d_def fdefs rounds)
  note z = zero_det_returns_nan [of "Float2 (Fin False 1) (Fin False 0)"
        "Float2 (Fin False 2) (Fin False 1)" "Float2 (Fin False 2) (Fin False 1)"
        "Float2 (Fin False 0) (Fin False 0)"
        "Float3 (Fin False 0) (Fin False 0) (Fin False 1)"
        "Float3 (Fin False 0) (Fin False 0) (Fin False 0)"
        "Float3 (Fin False 1) (Fin False 0) (Fin False 0)"
        "Float3 (Fin False 2) (Fin False 0) (Fin False 0)"
        "Float3 (Fin False 0) (Fin False 0) (Fin False 0)"]
  note y = zero_det_returns_nan [of ?t ?a0 ?a1 ?o]
  have "accept2d (line2seg2d_res ?o ?t ?a0 ?a1)"
    using y e by (simp add: t f_zero_def)
  then show ?thesis
    using d2 d3 z t e by blast
qed

text \<open>
  Claim C3 says that a returned \<open>k\<close> is not negative and that the barycentric
  coordinates of the call are within their bounds: \<open>0 <= l <= 1\<close> in 2D; \<open>0 <= l <= 1\<close>,
  \<open>0 <= m <= 1\<close> and \<open>0 <= l + m <= 1\<close> in 3D. The code tests the \<open>float\<close> sum
  \<open>res.s1 + res.s2\<close>, which is rounded. For the ray from \<open>(1, 2^-30, 0)\<close> in direction
  \<open>(0,0,1)\<close> and the triangle \<open>(0,0,1)\<close>, \<open>(1,0,1)\<close>, \<open>(0,1,1)\<close> the function returns
  \<open>k = 1\<close> with \<open>l = 1\<close> and \<open>m = 2^-30\<close>: the \<open>float\<close> sum is \<open>1\<close> and passes the
  test, while \<open>l + m\<close> is more than \<open>1\<close>.
\<close>

theorem sum_bound_is_rounded:
  "line2tri3d (Float3 (Fin False 1) (Fin False (1 / 2 ^ 30)) (Fin False 0))
              (Float3 (Fin False 0) (Fin False 0) (Fin False 1))
              (Float3 (Fin False 0) (Fin False 0) (Fin False 1))
              (Float3 (Fin False 1) (Fin False 0) (Fin False 1))
              (Float3 (Fin False 0) (Fin False 1) (Fin False 1)) = Fin False 1
   \<and> line2tri3d_res (Float3 (Fin False 1) (Fin False (1 / 2 ^ 30)) (Fin False 0))
              (Float3 (Fin False 0) (Fin False 0) (Fin False 1))
              (Float3 (Fin False 0) (Fin False 0) (Fin False 1))
              (Float3 (Fin False 1) (Fin False 0) (Fin False 1))
              (Float3 (Fin False 0) (Fin False 1) (Fin False 1))
       = Float3 (Fin False 1) (Fin False 1) (Fin False (1 / 2 ^ 30))
   \<and> 1 < valof (y3 (Float3 (Fin False 1) (Fin False 1) (Fin False (1 / 2 ^ 30))))
           + valof (z3 (Float3 (Fin False 1) (Fin False 1) (Fin False (1 / 2 ^ 30))))
   \<and> fadd (y3 (Float3 (Fin False 1) (Fin False 1) (Fin False (1 / 2 ^ 30))))
            (z3 (Float3 (Fin False 1) (Fin False 1) (Fin False (1 / 2 ^ 30)))) = Fin False 1"
  by (simp add: line2tri3d_def line2tri3d_res_def line2tri3d_det_def fdefs rounds
      r_pow_m30 r_one_plus)

text \<open>
  Claim C3, amended. Whenever \<open>line2seg2d\<close> or \<open>line2tri3d\<close> returns something else
  than the sentinel, the returned value is the \<open>k\<close> computed in that call (\<open>res.s0\<close>),
  it satisfies \<open>0 <= k\<close> (it is not negative), and the barycentric coordinates computed
  in that call satisfy \<open>0 <= l <= 1\<close> in 2D, and in 3D \<open>0 <= l <= 1\<close>, \<open>0 <= m <= 1\<close> and
  \<open>0 <= s <= 1\<close> for the \<open>float\<close> sum \<open>s\<close> of \<open>l\<close> and \<open>m\<close> that the source computes;
  the real sum satisfies \<open>0 \<le> l + m \<le> 1 + 2^-24\<close>.
\<close>

theorem returned_parameter_in_bounds:
  "(line2seg2d origin direction p0 p1 \<noteq> NaN \<longrightarrow>
      line2seg2d origin direction p0 p1 = x2 (line2seg2d_res origin direction p0 p1) \<and>
      fle f_zero (line2seg2d origin direction p0 p1) \<and>
      line2seg2d origin direction p0 p1 \<noteq> Inf True \<and>
      0 \<le> valof (line2seg2d origin direction p0 p1) \<and>
      fle f_zero (y2 (line2seg2d_res origin direction p0 p1)) \<and>
      fle (y2 (line2seg2d_res origin direction p0 p1)) f_one \<and>
      0 \<le> valof (y2 (line2seg2d_res origin direction p0 p1)) \<and>
      valof (y2 (line2seg2d_res origin direction p0 p1)) \<le> 1) \<and>
   (line2tri3d origin3 direction3 q0 q1 q2 \<noteq> NaN \<longrightarrow>
      line2tri3d origin3 direction3 q0 q1 q2 = x3 (line2tri3d_res origin3 direction3 q0 q1 q2) \<and>
      fle f_zero (line2tri3d origin3 direction3 q0 q1 q2) \<and>
      line2tri3d origin3 direction3 q0 q1 q2 \<noteq> Inf True \<and>
      0 \<le> valof (line2tri3d origin3 direction3 q0 q1 q2) \<and>
      fle f_zero (y3 (line2tri3d_res origin3 direction3 q0 q1 q2)) \<and>
      fle (y3 (line2tri3d_res origin3 direction3 q0 q1 q2)) f_one \<and>
      fle f_zero (z3 (line2tri3d_res origin3 direction3 q0 q1 q2)) \<and>
      fle (z3 (line2tri3d_res origin3 direction3 q0 q1 q2)) f_one \<and>
      fle f_zero (fadd (y3 (line2tri3d_res origin3 direction3 q0 q1 q2))
                       (z3 (line2tri3d_res origin3 direction3 q0 q1 q2))) \<and>
      fle (fadd (y3 (line2tri3d_res origin3 direction3 q0 q1 q2))
                (z3 (line2tri3d_res origin3 direction3 q0 q1 q2))) f_one \<and>
      0 \<le> valof (y3 (line2tri3d_res origin3 direction3 q0 q1 q2)) \<and>
      valof (y3 (line2tri3d_res origin3 direction3 q0 q1 q2)) \<le> 1 \<and>
      0 \<le> valof (z3 (line2tri3d_res origin3 direction3 q0 q1 q2)) \<and>
      valof (z3 (line2tri3d_res origin3 direction3 q0 q1 q2)) \<le> 1 \<and>
      0 \<le> valof (y3 (line2tri3d_res origin3 direction3 q0 q1 q2))
            + valof (z3 (line2tri3d_res origin3 direction3 q0 q1 q2)) \<and>
      valof (y3 (line2tri3d_res origin3 direction3 q0 q1 q2))
            + valof (z3 (line2tri3d_res origin3 direction3 q0 q1 q2)) \<le> 1 + 1 / 2 ^ 24)"
proof (intro conjI impI)
  let ?res = "line2seg2d_res origin direction p0 p1"
  assume r: "line2seg2d origin direction p0 p1 \<noteq> NaN"
  then have a: "accept2d ?res"
    and e: "line2seg2d origin direction p0 p1 = x2 ?res"
    by (auto simp: line2seg2d_alt split: if_splits)
  show "line2seg2d origin direction p0 p1 = x2 ?res"
    by (rule e)
  show k: "fle f_zero (line2seg2d origin direction p0 p1)"
    using a unfolding e by (simp add: accept2d_def)
  show "line2seg2d origin direction p0 p1 \<noteq> Inf True"
    using k by (auto simp: fle_zero_iff)
  show "0 \<le> valof (line2seg2d origin direction p0 p1)"
    using k by (auto simp: fle_zero_iff)
  have b: "between f_zero (y2 ?res) f_one"
    using a by (simp add: accept2d_def)
  show "fle f_zero (y2 ?res)" and "fle (y2 ?res) f_one"
    using b by (simp_all add: between_def)
  show "0 \<le> valof (y2 ?res)" and "valof (y2 ?res) \<le> 1"
    using between_unit_finite [OF b] by simp_all
next
  let ?res = "line2tri3d_res origin3 direction3 q0 q1 q2"
  assume r: "line2tri3d origin3 direction3 q0 q1 q2 \<noteq> NaN"
  then have a: "accept3d ?res"
    and e: "line2tri3d origin3 direction3 q0 q1 q2 = x3 ?res"
    by (auto simp: line2tri3d_alt split: if_splits)
  show "line2tri3d origin3 direction3 q0 q1 q2 = x3 ?res"
    by (rule e)
  show k: "fle f_zero (line2tri3d origin3 direction3 q0 q1 q2)"
    using a unfolding e by (simp add: accept3d_def)
  show "line2tri3d origin3 direction3 q0 q1 q2 \<noteq> Inf True"
    using k by (auto simp: fle_zero_iff)
  show "0 \<le> valof (line2tri3d origin3 direction3 q0 q1 q2)"
    using k by (auto simp: fle_zero_iff)
  have bl: "between f_zero (y3 ?res) f_one" and bm: "between f_zero (z3 ?res) f_one"
    and bs: "between f_zero (fadd (y3 ?res) (z3 ?res)) f_one"
    using a by (simp_all add: accept3d_def)
  show "fle f_zero (y3 ?res)" and "fle (y3 ?res) f_one"
    and "fle f_zero (z3 ?res)" and "fle (z3 ?res) f_one"
    and "fle f_zero (fadd (y3 ?res) (z3 ?res))" and "fle (fadd (y3 ?res) (z3 ?res)) f_one"
    using bl bm bs by (simp_all add: between_def)
  note ul = between_unit_finite [OF bl] and um = between_unit_finite [OF bm]
  show "0 \<le> valof (y3 ?res)" and "valof (y3 ?res) \<le> 1"
    and "0 \<le> valof (z3 ?res)" and "valof (z3 ?res) \<le> 1"
    using ul um by simp_all
  show "0 \<le> valof (y3 ?res) + valof (z3 ?res)"
    using ul um by simp
  have "fle (fadd (y3 ?res) (z3 ?res)) f_one"
    using bs by (simp add: between_def)
  then show "valof (y3 ?res) + valof (z3 ?res) \<le> 1 + 1 / 2 ^ 24"
    using ul um by (intro fadd_le_one_real) simp_all
qed

theorem returned_parameter_in_bounds_witness:
  "line2seg2d (Float2 (Fin False 0) (Fin False 0)) (Float2 (Fin False 1) (Fin False 0))
              (Float2 (Fin False 2) (Fin True 1)) (Float2 (Fin False 2) (Fin False 1)) \<noteq> NaN
   \<and> fle f_zero (line2seg2d (Float2 (Fin False 0) (Fin False 0))
              (Float2 (Fin False 1) (Fin False 0))
              (Float2 (Fin False 2) (Fin True 1)) (Float2 (Fin False 2) (Fin False 1)))
   \<and> fle (y2 (line2seg2d_res (Float2 (Fin False 0) (Fin False 0))
              (Float2 (Fin False 1) (Fin False 0))
              (Float2 (Fin False 2) (Fin True 1)) (Float2 (Fin False 2) (Fin False 1)))) f_one
   \<and> line2tri3d (Float3 (Fin False 0) (Fin False 0) (Fin False 0))
              (Float3 (Fin False 0) (Fin False 0) (Fin False 1))
              (Float3 (Fin True 1) (Fin True 1) (Fin False 1))
              (Float3 (Fin False 1) (Fin True 1) (Fin False 1))
              (Float3 (Fin False 0) (Fin False 1) (Fin False 1)) \<noteq> NaN
   \<and> fle f_zero (line2tri3d (Float3 (Fin False 0) (Fin False 0) (Fin False 0))
              (Float3 (Fin False 0) (Fin False 0) (Fin False 1))
              (Float3 (Fin True 1) (Fin True 1) (Fin False 1))
              (Float3 (Fin False 1) (Fin True 1) (Fin False 1))
              (Float3 (Fin False 0) (Fin False 1) (Fin False 1)))
   \<and> fle (fadd (y3 (line2tri3d_res (Float3 (Fin False 0) (Fin False 0) (Fin False 0))
              (Float3 (Fin False 0) (Fin False 0) (Fin False 1))
              (Float3 (Fin True 1) (Fin True 1) (Fin False 1))
              (Float3 (Fin False 1) (Fin True 1) (Fin False 1))
              (Float3 (Fin False 0) (Fin False 1) (Fin False 1))))
            (z3 (line2tri3d_res (Float3 (Fin False 0) (Fin False 0) (Fin False 0))
              (Float3 (Fin False 0) (Fin False 0) (Fin False 1))
              (Float3 (Fin True 1) (Fin True 1) (Fin False 1))
              (Float3 (Fin False 1) (Fin True 1) (Fin False 1))
              (Float3 (Fin False 0) (Fin False 1) (Fin False 1))))) f_one"
proof -
  have h2: "line2seg2d (Float2 (Fin False 0) (Fin False 0)) (Float2 (Fin False 1) (Fin False 0))
              (Float2 (Fin False 2) (Fin True 1)) (Float2 (Fin False 2) (Fin False 1)) \<noteq> NaN"
    by (simp add: line2seg2d_def fdefs rounds)
  have h3: "line2tri3d (Float3 (Fin False 0) (Fin False 0) (Fin False 0))
              (Float3 (Fin False 0) (Fin False 0) (Fin False 1))
              (Float3 (Fin True 1) (Fin True 1) (Fin False 1))
              (Float3 (Fin False 1) (Fin True 1) (Fin False 1))
              (Float3 (Fin False 0) (Fin False 1) (Fin False 1)) \<noteq> NaN"
    by (simp add: line2tri3d_def fdefs rounds)
  show ?thesis
    using h2 h3
      returned_parameter_in_bounds [of "Float2 (Fin False 0) (Fin False 0)"
        "Float2 (Fin False 1) (Fin False 0)" "Float2 (Fin False 2) (Fin True 1)"
        "Float2 (Fin False 2) (Fin False 1)"
        "Float3 (Fin False 0) (Fin False 0) (Fin False 0)"
        "Float3 (Fin False 0) (Fin False 0) (Fin False 1)"
        "Float3 (Fin True 1) (Fin True 1) (Fin False 1)"
        "Float3 (Fin False 1) (Fin True 1) (Fin False 1)"
        "Float3 (Fin False 0) (Fin False 1) (Fin False 1)"]
    by blast
qed

text \<open>
  Claim C6. The bounds are inclusive at both ends. When the determinant is not zero, the
  computed \<open>k\<close> satisfies \<open>0 <= k\<close> and each barycentric quantity (\<open>l\<close> in 2D; \<open>l\<close>,
  \<open>m\<close> and \<open>l + m\<close> in 3D) either is exactly \<open>0\<close> or \<open>1\<close> or is within its bounds, the
  function returns \<open>k\<close> and not the sentinel. In particular a quantity exactly on a
  bound never causes a rejection.
\<close>

theorem bounds_inclusive:
  "(\<not> feq (line2seg2d_det direction p0 p1) f_zero \<and>
    fle f_zero (x2 (line2seg2d_res origin direction p0 p1)) \<and>
    on_bound (y2 (line2seg2d_res origin direction p0 p1)) \<longrightarrow>
      line2seg2d origin direction p0 p1 = x2 (line2seg2d_res origin direction p0 p1) \<and>
      line2seg2d origin direction p0 p1 \<noteq> NaN) \<and>
   (\<not> feq (line2tri3d_det direction3 q0 q1 q2) f_zero \<and>
    fle f_zero (x3 (line2tri3d_res origin3 direction3 q0 q1 q2)) \<and>
    (on_bound (y3 (line2tri3d_res origin3 direction3 q0 q1 q2)) \<or>
     between f_zero (y3 (line2tri3d_res origin3 direction3 q0 q1 q2)) f_one) \<and>
    (on_bound (z3 (line2tri3d_res origin3 direction3 q0 q1 q2)) \<or>
     between f_zero (z3 (line2tri3d_res origin3 direction3 q0 q1 q2)) f_one) \<and>
    (on_bound (fadd (y3 (line2tri3d_res origin3 direction3 q0 q1 q2))
                    (z3 (line2tri3d_res origin3 direction3 q0 q1 q2))) \<or>
     between f_zero (fadd (y3 (line2tri3d_res origin3 direction3 q0 q1 q2))
                          (z3 (line2tri3d_res origin3 direction3 q0 q1 q2))) f_one) \<longrightarrow>
      line2tri3d origin3 direction3 q0 q1 q2 = x3 (line2tri3d_res origin3 direction3 q0 q1 q2) \<and>
      line2tri3d origin3 direction3 q0 q1 q2 \<noteq> NaN)"
proof -
  have b: "on_bound a \<Longrightarrow> between f_zero a f_one" for a
    by (cases a) (auto simp: on_bound_def between_def f_zero_def f_one_def)
  have n: "fle f_zero a \<Longrightarrow> a \<noteq> NaN" for a
    by (auto simp: fle_NaN_right)
  show ?thesis
    using b n by (auto simp: line2seg2d_alt line2tri3d_alt accept2d_def accept3d_def)
qed

theorem bounds_inclusive_witness:
  "\<not> feq (line2seg2d_det (Float2 (Fin False 1) (Fin False 0))
          (Float2 (Fin False 2) (Fin True 1)) (Float2 (Fin False 2) (Fin False 0))) f_zero
   \<and> line2seg2d_res (Float2 (Fin False 0) (Fin False 0)) (Float2 (Fin False 1) (Fin False 0))
          (Float2 (Fin False 2) (Fin True 1)) (Float2 (Fin False 2) (Fin False 0))
       = Float2 (Fin False 2) (Fin False 1)
   \<and> line2seg2d (Float2 (Fin False 0) (Fin False 0)) (Float2 (Fin False 1) (Fin False 0))
          (Float2 (Fin False 2) (Fin True 1)) (Float2 (Fin False 2) (Fin False 0))
       = Fin False 2
   \<and> \<not> feq (line2tri3d_det (Float3 (Fin False 0) (Fin False 0) (Fin False 1))
          (Float3 (Fin False 0) (Fin False 0) (Fin False 1))
          (Float3 (Fin False 1) (Fin False 0) (Fin False 1))
          (Float3 (Fin False 0) (Fin False 1) (Fin False 1))) f_zero
   \<and> line2tri3d_res (Float3 (Fin False 1) (Fin False 0) (Fin False 0))
          (Float3 (Fin False 0) (Fin False 0) (Fin False 1))
          (Float3 (Fin False 0) (Fin False 0) (Fin False 1))
          (Float3 (Fin False 1) (Fin False 0) (Fin False 1))
          (Float3 (Fin False 0) (Fin False 1) (Fin False 1))
       = Float3 (Fin False 1) (Fin False 1) (Fin False 0)
   \<and> line2tri3d (Float3 (Fin False 1) (Fin False 0) (Fin False 0))
          (Float3 (Fin False 0) (Fin False 0) (Fin False 1))
          (Float3 (Fin False 0) (Fin False 0) (Fin False 1))
          (Float3 (Fin False 1) (Fin False 0) (Fin False 1))
          (Float3 (Fin False 0) (Fin False 1) (Fin False 1))
       = Fin False 1"
proof -
  let ?o2 = "Float2 (Fin False 0) (Fin False 0)" and ?d2 = "Float2 (Fin False 1) (Fin False 0)"
  let ?a0 = "Float2 (Fin False 2) (Fin True 1)" and ?a1 = "Float2 (Fin False 2) (Fin False 0)"
  let ?o3 = "Float3 (Fin False 1) (Fin False 0) (Fin False 0)"
  let ?d3 = "Float3 (Fin False 0) (Fin False 0) (Fin False 1)"
  let ?b0 = "Float3 (Fin False 0) (Fin False 0) (Fin False 1)"
  let ?b1 = "Float3 (Fin False 1) (Fin False 0) (Fin False 1)"
  let ?b2 = "Float3 (Fin False 0) (Fin False 1) (Fin False 1)"
  have d2: "\<not> feq (line2seg2d_det ?d2 ?a0 ?a1) f_zero"
    by (simp add: line2seg2d_det_def fdefs rounds)
  have r2: "line2seg2d_res ?o2 ?d2 ?a0 ?a1 = Float2 (Fin False 2) (Fin False 1)"
    by (simp add: line2seg2d_res_def line2seg2d_det_def fdefs rounds)
  have d3: "\<not> feq (line2tri3d_det ?d3 ?b0 ?b1 ?b2) f_zero"
    by (simp add: line2tri3d_det_def fdefs rounds)
  have r3: "line2tri3d_res ?o3 ?d3 ?b0 ?b1 ?b2 = Float3 (Fin False 1) (Fin False 1) (Fin False 0)"
    by (simp add: line2tri3d_res_def line2tri3d_det_def fdefs rounds)
  have ob: "on_bound (Fin False 1)" "on_bound (Fin False 0)" "fle f_zero (Fin False 2)"
    "fle f_zero (Fin False 1)" "on_bound (fadd (Fin False 1) (Fin False 0))"
    by (simp_all add: on_bound_def fdefs rounds)
  show ?thesis
    using bounds_inclusive [of ?d2 ?a0 ?a1 ?o2 ?d3 ?b0 ?b1 ?b2 ?o3] d2 d3 ob
    by (simp add: r2 r3)
qed

section \<open>Degenerate primitives and not-a-number arguments\<close>

text \<open>
  Claim C5. For every ray, \<open>line2seg2d\<close> returns \<open>NAN\<close> on a segment of length zero
  (\<open>p0\<close> and \<open>p1\<close> the same value, or equal component by component under \<open>==\<close>), and
  \<open>line2tri3d\<close> returns \<open>NAN\<close> on the triangle \<open>(0,0,0)\<close>, \<open>(1,0,0)\<close>, \<open>(2,0,0)\<close>,
  whose points are on one line. The ray is any pair of vectors, with infinite and
  not-a-number components too.
\<close>

theorem degenerate_returns_nan:
  "((p0 = p1 \<or> (feq (x2 p0) (x2 p1) \<and> feq (y2 p0) (y2 p1))) \<longrightarrow>
      line2seg2d origin direction p0 p1 = NaN) \<and>
   line2tri3d origin3 direction3 (Float3 (Fin False 0) (Fin False 0) (Fin False 0))
      (Float3 (Fin False 1) (Fin False 0) (Fin False 0))
      (Float3 (Fin False 2) (Fin False 0) (Fin False 0)) = NaN"
proof (intro conjI impI)
  assume "p0 = p1 \<or> (feq (x2 p0) (x2 p1) \<and> feq (y2 p0) (y2 p1))"
  then have "zero_or_nan (fsub (x2 p0) (x2 p1))" "zero_or_nan (fsub (y2 p0) (y2 p1))"
    by (auto simp: zn_fsub_same zn_fsub_feq)
  then show "line2seg2d origin direction p0 p1 = NaN"
    by (intro seg2d_det_zn seg2d_degenerate_det)
next
  let ?p0 = "Float3 (Fin False 0) (Fin False 0) (Fin False 0)"
  let ?p1 = "Float3 (Fin False 1) (Fin False 0) (Fin False 0)"
  let ?p2 = "Float3 (Fin False 2) (Fin False 0) (Fin False 0)"
  have "zero_or_nan (line2tri3d_det direction3 ?p0 ?p1 ?p2)"
    unfolding line2tri3d_det_def Let_def
    by (rule zn_fadd [OF zn_fsub [OF zn_fmul_right zn_fmul_right] zn_fmul_right])
      (simp_all add: vsub3_def fsub_def rnd_def round32_zero r_one r_two zero_or_nan_def)
  then show "line2tri3d origin3 direction3 ?p0 ?p1 ?p2 = NaN"
    by (rule tri3d_det_zn)
qed

theorem degenerate_returns_nan_witness:
  "feq (x2 (Float2 (Fin False 2) (Fin False 1))) (x2 (Float2 (Fin False 2) (Fin False 1)))
   \<and> feq (y2 (Float2 (Fin False 2) (Fin False 1))) (y2 (Float2 (Fin False 2) (Fin False 1)))
   \<and> line2seg2d (Float2 (Fin False 0) (Fin False 0)) (Float2 (Fin False 1) (Fin False 0))
        (Float2 (Fin False 2) (Fin False 1)) (Float2 (Fin False 2) (Fin False 1)) = NaN
   \<and> line2tri3d (Float3 (Fin False 0) (Fin False 0) (Fin False 0))
        (Float3 (Fin False 0) (Fin False 0) (Fin False 1))
        (Float3 (Fin False 0) (Fin False 0) (Fin False 0))
        (Float3 (Fin False 1) (Fin False 0) (Fin False 0))
        (Float3 (Fin False 2) (Fin False 0) (Fin False 0)) = NaN"
  using degenerate_returns_nan [of "Float2 (Fin False 2) (Fin False 1)"
      "Float2 (Fin False 2) (Fin False 1)" "Float2 (Fin False 0) (Fin False 0)"
      "Float2 (Fin False 1) (Fin False 0)"
      "Float3 (Fin False 0) (Fin False 0) (Fin False 0)"
      "Float3 (Fin False 0) (Fin False 0) (Fin False 1)"]
  by simp

text \<open>
  Claim C9. A call of \<open>line2seg2d\<close> or \<open>line2tri3d\<close> in which a component of an
  argument (the origin, the direction or a vertex) is not a number returns \<open>NAN\<close>.
\<close>

theorem nan_input_returns_nan:
  "(has_nan2 origin \<or> has_nan2 direction \<or> has_nan2 p0 \<or> has_nan2 p1 \<longrightarrow>
      line2seg2d origin direction p0 p1 = NaN) \<and>
   (has_nan3 origin3 \<or> has_nan3 direction3 \<or> has_nan3 q0 \<or> has_nan3 q1 \<or> has_nan3 q2 \<longrightarrow>
      line2tri3d origin3 direction3 q0 q1 q2 = NaN)"
proof (intro conjI impI)
  assume "has_nan2 origin \<or> has_nan2 direction \<or> has_nan2 p0 \<or> has_nan2 p1"
  then consider "has_nan2 origin" | "has_nan2 direction \<or> has_nan2 p0 \<or> has_nan2 p1" by blast
  then show "line2seg2d origin direction p0 p1 = NaN"
  proof cases
    case 1
    then show ?thesis
      by (auto simp: has_nan2_def line2seg2d_alt accept2d_def line2seg2d_res_def vsub2_def
          dot2_def Let_def nan_simps)
  next
    case 2
    then have "line2seg2d_det direction p0 p1 = NaN"
      by (auto simp: has_nan2_def line2seg2d_det_def vsub2_def Let_def nan_simps)
    then show ?thesis by (rule seg2d_det_NaN)
  qed
next
  assume "has_nan3 origin3 \<or> has_nan3 direction3 \<or> has_nan3 q0 \<or> has_nan3 q1 \<or> has_nan3 q2"
  then consider "has_nan3 origin3"
    | "has_nan3 direction3 \<or> has_nan3 q0 \<or> has_nan3 q1 \<or> has_nan3 q2" by blast
  then show "line2tri3d origin3 direction3 q0 q1 q2 = NaN"
  proof cases
    case 1
    then show ?thesis
      by (auto simp: has_nan3_def line2tri3d_alt accept3d_def line2tri3d_res_def vsub3_def
          dot3_def Let_def nan_simps)
  next
    case 2
    then have "line2tri3d_det direction3 q0 q1 q2 = NaN"
      by (auto simp: has_nan3_def line2tri3d_det_def vsub3_def Let_def nan_simps)
    then show ?thesis by (rule tri3d_det_NaN)
  qed
qed

theorem nan_input_returns_nan_witness:
  "has_nan2 (Float2 (Fin False 2) NaN)
   \<and> line2seg2d (Float2 (Fin False 0) (Fin False 0)) (Float2 (Fin False 1) (Fin False 0))
        (Float2 (Fin False 2) (Fin True 1)) (Float2 (Fin False 2) NaN) = NaN
   \<and> has_nan3 (Float3 NaN (Fin False 0) (Fin False 0))
   \<and> line2tri3d (Float3 NaN (Fin False 0) (Fin False 0))
        (Float3 (Fin False 0) (Fin False 0) (Fin False 1))
        (Float3 (Fin True 1) (Fin True 1) (Fin False 1))
        (Float3 (Fin False 1) (Fin True 1) (Fin False 1))
        (Float3 (Fin False 0) (Fin False 1) (Fin False 1)) = NaN"
  using nan_input_returns_nan [of "Float2 (Fin False 0) (Fin False 0)"
      "Float2 (Fin False 1) (Fin False 0)" "Float2 (Fin False 2) (Fin True 1)"
      "Float2 (Fin False 2) NaN" "Float3 NaN (Fin False 0) (Fin False 0)"
      "Float3 (Fin False 0) (Fin False 0) (Fin False 1)"
      "Float3 (Fin True 1) (Fin True 1) (Fin False 1)"
      "Float3 (Fin False 1) (Fin True 1) (Fin False 1)"
      "Float3 (Fin False 0) (Fin False 1) (Fin False 1)"]
  by (simp add: has_nan2_def has_nan3_def)

section \<open>The computed solution\<close>

text \<open>
  Claim C2 says that, the determinant not being zero, the pair \<open>(k, l)\<close> that
  \<open>line2seg2d\<close> computes is the exact solution of
  \<open>origin + k*direction = p0 + l*(p1 - p0)\<close>, so that a returned \<open>k\<close> is the parameter
  of a point of the segment. The code computes in \<open>float\<close>, and a rounded quotient is
  not the solution: for the ray from \<open>(0,0)\<close> in direction \<open>(3,0)\<close> and the segment from
  \<open>(1,-1)\<close> to \<open>(1,1)\<close> the determinant is \<open>-6\<close>, the function returns
  \<open>k = 11184811/33554432\<close> (the \<open>float\<close> nearest to \<open>1/3\<close>) with \<open>l = 1/2\<close>, and
  \<open>origin + k*direction\<close> has the abscissa \<open>33554433/33554432\<close>, while every point
  of the segment has the abscissa \<open>1\<close>.
\<close>

theorem seg2d_solution_inexact:
  "\<not> feq (line2seg2d_det (Float2 (Fin False 3) (Fin False 0))
            (Float2 (Fin False 1) (Fin True 1)) (Float2 (Fin False 1) (Fin False 1))) f_zero
   \<and> line2seg2d_res (Float2 (Fin False 0) (Fin False 0)) (Float2 (Fin False 3) (Fin False 0))
            (Float2 (Fin False 1) (Fin True 1)) (Float2 (Fin False 1) (Fin False 1))
       = Float2 (Fin False (11184811 / 33554432)) (Fin False (1 / 2))
   \<and> line2seg2d (Float2 (Fin False 0) (Fin False 0)) (Float2 (Fin False 3) (Fin False 0))
            (Float2 (Fin False 1) (Fin True 1)) (Float2 (Fin False 1) (Fin False 1))
       = Fin False (11184811 / 33554432)
   \<and> \<not> solves2d (Float2 (Fin False 0) (Fin False 0)) (Float2 (Fin False 3) (Fin False 0))
            (Float2 (Fin False 1) (Fin True 1)) (Float2 (Fin False 1) (Fin False 1))
            (11184811 / 33554432) (1 / 2)
   \<and> valof (x2 (Float2 (Fin False 0) (Fin False 0)))
       + valof (line2seg2d (Float2 (Fin False 0) (Fin False 0))
            (Float2 (Fin False 3) (Fin False 0))
            (Float2 (Fin False 1) (Fin True 1)) (Float2 (Fin False 1) (Fin False 1)))
         * valof (x2 (Float2 (Fin False 3) (Fin False 0)))
       \<noteq> valof (x2 (Float2 (Fin False 1) (Fin True 1)))
   \<and> valof (x2 (Float2 (Fin False 1) (Fin False 1)))
       - valof (x2 (Float2 (Fin False 1) (Fin True 1))) = 0"
  by (simp add: line2seg2d_def line2seg2d_det_def line2seg2d_res_def solves2d_def fdefs rounds)

text \<open>
  Claim C2, amended. When every arithmetic operation of the call
  \<open>line2seg2d(origin, direction, p0, p1)\<close> is exact (no result is rounded) and the
  determinant is not zero, the computed pair \<open>(k, l)\<close> is the exact solution of
  \<open>origin + k*direction = p0 + l*(p1 - p0)\<close>; and if the call returns something else
  than the sentinel, it returns this \<open>k\<close>, with \<open>0 \<le> k\<close> and \<open>0 \<le> l \<le> 1\<close>.
\<close>

theorem seg2d_exact_solution:
  assumes "line2seg2d_exact origin direction p0 p1"
    and "\<not> feq (line2seg2d_det direction p0 p1) f_zero"
  shows "solves2d origin direction p0 p1
           (valof (x2 (line2seg2d_res origin direction p0 p1)))
           (valof (y2 (line2seg2d_res origin direction p0 p1)))
         \<and> (line2seg2d origin direction p0 p1 \<noteq> NaN \<longrightarrow>
              line2seg2d origin direction p0 p1 = x2 (line2seg2d_res origin direction p0 p1) \<and>
              0 \<le> valof (x2 (line2seg2d_res origin direction p0 p1)) \<and>
              0 \<le> valof (y2 (line2seg2d_res origin direction p0 p1)) \<and>
              valof (y2 (line2seg2d_res origin direction p0 p1)) \<le> 1)"
proof -
  note v = seg2d_exact_vals [OF assms(1)]
  have nz: "valof (line2seg2d_det direction p0 p1) \<noteq> 0"
    using assms(2) v(1) by (simp add: feq_zero_finite)
  have "solves2d origin direction p0 p1
           (valof (x2 (line2seg2d_res origin direction p0 p1)))
           (valof (y2 (line2seg2d_res origin direction p0 p1)))"
    unfolding solves2d_def v(5,6)
    using cramer2 [OF nz [unfolded v(2)] refl] by blast
  moreover have "line2seg2d origin direction p0 p1 \<noteq> NaN \<longrightarrow>
              line2seg2d origin direction p0 p1 = x2 (line2seg2d_res origin direction p0 p1) \<and>
              0 \<le> valof (x2 (line2seg2d_res origin direction p0 p1)) \<and>
              0 \<le> valof (y2 (line2seg2d_res origin direction p0 p1)) \<and>
              valof (y2 (line2seg2d_res origin direction p0 p1)) \<le> 1"
    using v(3,4)
    by (simp add: line2seg2d_alt accept2d_def between_def fle_zero_finite fle_one_finite)
  ultimately show ?thesis by blast
qed

theorem seg2d_exact_solution_witness:
  "line2seg2d_exact (Float2 (Fin False 0) (Fin False 0)) (Float2 (Fin False 1) (Fin False 0))
              (Float2 (Fin False 2) (Fin True 1)) (Float2 (Fin False 2) (Fin False 1))
   \<and> \<not> feq (line2seg2d_det (Float2 (Fin False 1) (Fin False 0))
              (Float2 (Fin False 2) (Fin True 1)) (Float2 (Fin False 2) (Fin False 1))) f_zero
   \<and> solves2d (Float2 (Fin False 0) (Fin False 0)) (Float2 (Fin False 1) (Fin False 0))
              (Float2 (Fin False 2) (Fin True 1)) (Float2 (Fin False 2) (Fin False 1))
              2 (1 / 2)
   \<and> line2seg2d (Float2 (Fin False 0) (Fin False 0)) (Float2 (Fin False 1) (Fin False 0))
              (Float2 (Fin False 2) (Fin True 1)) (Float2 (Fin False 2) (Fin False 1))
       = Fin False 2"
proof -
  let ?o = "Float2 (Fin False 0) (Fin False 0)" and ?d = "Float2 (Fin False 1) (Fin False 0)"
  let ?a0 = "Float2 (Fin False 2) (Fin True 1)" and ?a1 = "Float2 (Fin False 2) (Fin False 1)"
  have nz: "\<not> feq (line2seg2d_det ?d ?a0 ?a1) f_zero"
    by (simp add: line2seg2d_det_def fdefs rounds)
  have r: "line2seg2d_res ?o ?d ?a0 ?a1 = Float2 (Fin False 2) (Fin False (1 / 2))"
    by (simp add: line2seg2d_res_def line2seg2d_det_def fdefs rounds)
  have e: "line2seg2d ?o ?d ?a0 ?a1 = Fin False 2"
    by (simp add: line2seg2d_def fdefs rounds)
  show ?thesis
    using seg2d_exact_solution [OF seg2d_exact_hit nz] seg2d_exact_hit nz e
    by (simp add: r)
qed

text \<open>
  Claim C1 says the same of \<open>line2tri3d\<close>: the determinant not being zero, the computed
  triple \<open>(k, l, m)\<close> is the exact solution of
  \<open>origin + k*direction = p0 + l*(p1 - p0) + m*(p2 - p0)\<close>. Rounding refutes it: for the
  ray from the origin in direction \<open>(0,0,3)\<close> and the triangle \<open>(-1,-1,1)\<close>, \<open>(1,-1,1)\<close>,
  \<open>(0,1,1)\<close> the determinant is \<open>12\<close>, the function returns \<open>k = 11184811/33554432\<close>
  with \<open>l = 1/4\<close> and \<open>m = 1/2\<close>, and \<open>origin + k*direction\<close> has the height
  \<open>33554433/33554432\<close>, while the triangle is in the plane of height \<open>1\<close>.
\<close>

theorem tri3d_solution_inexact:
  "\<not> feq (line2tri3d_det (Float3 (Fin False 0) (Fin False 0) (Fin False 3))
                       (Float3 (Fin True 1) (Fin True 1) (Fin False 1))
                       (Float3 (Fin False 1) (Fin True 1) (Fin False 1))
                       (Float3 (Fin False 0) (Fin False 1) (Fin False 1))) f_zero
   \<and> line2tri3d_res (Float3 (Fin False 0) (Fin False 0) (Fin False 0))
                       (Float3 (Fin False 0) (Fin False 0) (Fin False 3))
                       (Float3 (Fin True 1) (Fin True 1) (Fin False 1))
                       (Float3 (Fin False 1) (Fin True 1) (Fin False 1))
                       (Float3 (Fin False 0) (Fin False 1) (Fin False 1))
       = Float3 (Fin False (11184811 / 33554432)) (Fin False (1 / 4)) (Fin False (1 / 2))
   \<and> line2tri3d (Float3 (Fin False 0) (Fin False 0) (Fin False 0))
                       (Float3 (Fin False 0) (Fin False 0) (Fin False 3))
                       (Float3 (Fin True 1) (Fin True 1) (Fin False 1))
                       (Float3 (Fin False 1) (Fin True 1) (Fin False 1))
                       (Float3 (Fin False 0) (Fin False 1) (Fin False 1))
       = Fin False (11184811 / 33554432)
   \<and> \<not> solves3d (Float3 (Fin False 0) (Fin False 0) (Fin False 0))
                       (Float3 (Fin False 0) (Fin False 0) (Fin False 3))
                       (Float3 (Fin True 1) (Fin True 1) (Fin False 1))
                       (Float3 (Fin False 1) (Fin True 1) (Fin False 1))
                       (Float3 (Fin False 0) (Fin False 1) (Fin False 1))
            (11184811 / 33554432) (1 / 4) (1 / 2)
   \<and> valof (z3 (Float3 (Fin False 0) (Fin False 0) (Fin False 0)))
       + valof (line2tri3d (Float3 (Fin False 0) (Fin False 0) (Fin False 0))
                       (Float3 (Fin False 0) (Fin False 0) (Fin False 3))
                       (Float3 (Fin True 1) (Fin True 1) (Fin False 1))
                       (Float3 (Fin False 1) (Fin True 1) (Fin False 1))
                       (Float3 (Fin False 0) (Fin False 1) (Fin False 1)))
         * valof (z3 (Float3 (Fin False 0) (Fin False 0) (Fin False 3)))
       \<noteq> valof (z3 (Float3 (Fin True 1) (Fin True 1) (Fin False 1)))
   \<and> valof (z3 (Float3 (Fin False 1) (Fin True 1) (Fin False 1)))
       - valof (z3 (Float3 (Fin True 1) (Fin True 1) (Fin False 1))) = 0
   \<and> valof (z3 (Float3 (Fin False 0) (Fin False 1) (Fin False 1)))
       - valof (z3 (Float3 (Fin True 1) (Fin True 1) (Fin False 1))) = 0"
  by (simp add: line2tri3d_def line2tri3d_det_def line2tri3d_res_def solves3d_def fdefs rounds)

text \<open>
  Claim C1, amended. When every arithmetic operation of the call
  \<open>line2tri3d(origin, direction, p0, p1, p2)\<close> is exact (no result is rounded) and the
  determinant is not zero, the computed triple \<open>(k, l, m)\<close> is the exact solution of
  \<open>origin + k*direction = p0 + l*(p1 - p0) + m*(p2 - p0)\<close>; and if the call returns
  something else than the sentinel, it returns this \<open>k\<close>, with \<open>0 \<le> k\<close>, \<open>0 \<le> l \<le> 1\<close>,
  \<open>0 \<le> m \<le> 1\<close> and \<open>0 \<le> l + m \<le> 1\<close>.
\<close>

theorem tri3d_exact_solution:
  assumes "line2tri3d_exact origin direction p0 p1 p2"
    and "\<not> feq (line2tri3d_det direction p0 p1 p2) f_zero"
  shows "solves3d origin direction p0 p1 p2
           (valof (x3 (line2tri3d_res origin direction p0 p1 p2)))
           (valof (y3 (line2tri3d_res origin direction p0 p1 p2)))
           (valof (z3 (line2tri3d_res origin direction p0 p1 p2)))
         \<and> (line2tri3d origin direction p0 p1 p2 \<noteq> NaN \<longrightarrow>
              line2tri3d origin direction p0 p1 p2 = x3 (line2tri3d_res origin direction p0 p1 p2) \<and>
              0 \<le> valof (x3 (line2tri3d_res origin direction p0 p1 p2)) \<and>
              0 \<le> valof (y3 (line2tri3d_res origin direction p0 p1 p2)) \<and>
              valof (y3 (line2tri3d_res origin direction p0 p1 p2)) \<le> 1 \<and>
              0 \<le> valof (z3 (line2tri3d_res origin direction p0 p1 p2)) \<and>
              valof (z3 (line2tri3d_res origin direction p0 p1 p2)) \<le> 1 \<and>
              0 \<le> valof (y3 (line2tri3d_res origin direction p0 p1 p2))
                    + valof (z3 (line2tri3d_res origin direction p0 p1 p2)) \<and>
              valof (y3 (line2tri3d_res origin direction p0 p1 p2))
                    + valof (z3 (line2tri3d_res origin direction p0 p1 p2)) \<le> 1)"
proof -
  let ?res = "line2tri3d_res origin direction p0 p1 p2"
  note v = tri3d_exact_vals [OF assms(1)]
  have nz: "valof (line2tri3d_det direction p0 p1 p2) \<noteq> 0"
    using assms(2) v(1) by (simp add: feq_zero_finite)
  note c = cramer3_core [OF nz [unfolded v(2)] refl,
      where ?r1.0 = "valof (x3 p0) - valof (x3 origin)"
        and ?r2.0 = "valof (y3 p0) - valof (y3 origin)"
        and ?r3.0 = "valof (z3 p0) - valof (z3 origin)"]
  have e1: "valof (x3 ?res) * valof (x3 direction)
            + valof (y3 ?res) * (valof (x3 p0) - valof (x3 p1))
            + valof (z3 ?res) * (valof (x3 p0) - valof (x3 p2))
            = valof (x3 p0) - valof (x3 origin)"
    unfolding v(6,7,8) by (rule c(1))
  have e2: "valof (x3 ?res) * valof (y3 direction)
            + valof (y3 ?res) * (valof (y3 p0) - valof (y3 p1))
            + valof (z3 ?res) * (valof (y3 p0) - valof (y3 p2))
            = valof (y3 p0) - valof (y3 origin)"
    unfolding v(6,7,8) by (rule c(2))
  have e3: "valof (x3 ?res) * valof (z3 direction)
            + valof (y3 ?res) * (valof (z3 p0) - valof (z3 p1))
            + valof (z3 ?res) * (valof (z3 p0) - valof (z3 p2))
            = valof (z3 p0) - valof (z3 origin)"
    unfolding v(6,7,8) by (rule c(3))
  have "solves3d origin direction p0 p1 p2 (valof (x3 ?res)) (valof (y3 ?res)) (valof (z3 ?res))"
    unfolding solves3d_def using e1 e2 e3 by (simp add: algebra_simps)
  moreover have "line2tri3d origin direction p0 p1 p2 \<noteq> NaN \<longrightarrow>
              line2tri3d origin direction p0 p1 p2 = x3 ?res \<and>
              0 \<le> valof (x3 ?res) \<and>
              0 \<le> valof (y3 ?res) \<and> valof (y3 ?res) \<le> 1 \<and>
              0 \<le> valof (z3 ?res) \<and> valof (z3 ?res) \<le> 1 \<and>
              0 \<le> valof (y3 ?res) + valof (z3 ?res) \<and>
              valof (y3 ?res) + valof (z3 ?res) \<le> 1"
    using v(3,4,5,9) v(10) [symmetric]
    by (simp add: line2tri3d_alt accept3d_def between_def fle_zero_finite fle_one_finite)
  ultimately show ?thesis by blast
qed

theorem tri3d_exact_solution_witness:
  "line2tri3d_exact (Float3 (Fin False 0) (Fin False 0) (Fin False 0))
                    (Float3 (Fin False 0) (Fin False 0) (Fin False 1))
                    (Float3 (Fin True 1) (Fin True 1) (Fin False 1))
                    (Float3 (Fin False 1) (Fin True 1) (Fin False 1))
                    (Float3 (Fin False 0) (Fin False 1) (Fin False 1))
   \<and> \<not> feq (line2tri3d_det (Float3 (Fin False 0) (Fin False 0) (Fin False 1))
                    (Float3 (Fin True 1) (Fin True 1) (Fin False 1))
                    (Float3 (Fin False 1) (Fin True 1) (Fin False 1))
                    (Float3 (Fin False 0) (Fin False 1) (Fin False 1))) f_zero
   \<and> solves3d (Float3 (Fin False 0) (Fin False 0) (Fin False 0))
                    (Float3 (Fin False 0) (Fin False 0) (Fin False 1))
                    (Float3 (Fin True 1) (Fin True 1) (Fin False 1))
                    (Float3 (Fin False 1) (Fin True 1) (Fin False 1))
                    (Float3 (Fin False 0) (Fin False 1) (Fin False 1))
              1 (1 / 4) (1 / 2)
   \<and> line2tri3d (Float3 (Fin False 0) (Fin False 0) (Fin False 0))
                    (Float3 (Fin False 0) (Fin False 0) (Fin False 1))
                    (Float3 (Fin True 1) (Fin True 1) (Fin False 1))
                    (Float3 (Fin False 1) (Fin True 1) (Fin False 1))
                    (Float3 (Fin False 0) (Fin False 1) (Fin False 1))
       = Fin False 1"
proof -
  let ?o = "Float3 (Fin False 0) (Fin False 0) (Fin False 0)"
  let ?d = "Float3 (Fin False 0) (Fin False 0) (Fin False 1)"
  let ?a0 = "Float3 (Fin True 1) (Fin True 1) (Fin False 1)"
  let ?a1 = "Float3 (Fin False 1) (Fin True 1) (Fin False 1)"
  let ?a2 = "Float3 (Fin False 0) (Fin False 1) (Fin False 1)"
  have nz: "\<not> feq (line2tri3d_det ?d ?a0 ?a1 ?a2) f_zero"
    by (simp add: line2tri3d_det_def fdefs rounds)
  have r: "line2tri3d_res ?o ?d ?a0 ?a1 ?a2
             = Float3 (Fin False 1) (Fin False (1 / 4)) (Fin False (1 / 2))"
    by (simp add: line2tri3d_res_def line2tri3d_det_def fdefs rounds)
  have e: "line2tri3d ?o ?d ?a0 ?a1 ?a2 = Fin False 1"
    by (simp add: line2tri3d_def fdefs rounds)
  show ?thesis
    using tri3d_exact_solution [OF tri3d_exact_hit nz] tri3d_exact_hit nz e
    by (simp add: r)
qed

section \<open>Swapping the endpoints of the segment\<close>

text \<open>
  Claim C10 says that \<open>line2seg2d(origin, direction, p1, p0)\<close> returns a finite value
  exactly when \<open>line2seg2d(origin, direction, p0, p1)\<close> does, and then the same value.
  The two calls compute \<open>k\<close> from different right-hand sides, \<open>p1 - origin\<close> and
  \<open>p0 - origin\<close>, and round differently. For the ray from \<open>(1,0)\<close> in direction
  \<open>(3,0)\<close> and the points \<open>p0 = (1,0)\<close>, \<open>p1 = (-4,1)\<close> the call returns \<open>0\<close> and the
  call with the points swapped returns \<open>NAN\<close> (its \<open>k\<close> is \<open>-1/8388608\<close>). For the ray
  from \<open>(0,0)\<close> in direction \<open>(3,0)\<close> and the points \<open>p0 = (1,0)\<close>, \<open>p1 = (-2,1)\<close> the
  call returns \<open>11184811/33554432\<close> and the call with the points swapped returns
  \<open>5592405/16777216\<close>, one unit in the last place below.
\<close>

theorem swap_not_invariant:
  "line2seg2d (Float2 (Fin False 1) (Fin False 0)) (Float2 (Fin False 3) (Fin False 0))
              (Float2 (Fin False 1) (Fin False 0)) (Float2 (Fin True 4) (Fin False 1))
     = Fin False 0
   \<and> line2seg2d (Float2 (Fin False 1) (Fin False 0)) (Float2 (Fin False 3) (Fin False 0))
              (Float2 (Fin True 4) (Fin False 1)) (Float2 (Fin False 1) (Fin False 0))
     = NaN
   \<and> line2seg2d_res (Float2 (Fin False 1) (Fin False 0)) (Float2 (Fin False 3) (Fin False 0))
              (Float2 (Fin True 4) (Fin False 1)) (Float2 (Fin False 1) (Fin False 0))
     = Float2 (Fin True (1 / 8388608)) (Fin False 1)
   \<and> line2seg2d (Float2 (Fin False 0) (Fin False 0)) (Float2 (Fin False 3) (Fin False 0))
              (Float2 (Fin False 1) (Fin False 0)) (Float2 (Fin True 2) (Fin False 1))
     = Fin False (11184811 / 33554432)
   \<and> line2seg2d (Float2 (Fin False 0) (Fin False 0)) (Float2 (Fin False 3) (Fin False 0))
              (Float2 (Fin True 2) (Fin False 1)) (Float2 (Fin False 1) (Fin False 0))
     = Fin False (5592405 / 16777216)
   \<and> \<not> feq (line2seg2d (Float2 (Fin False 0) (Fin False 0))
              (Float2 (Fin False 3) (Fin False 0))
              (Float2 (Fin True 2) (Fin False 1)) (Float2 (Fin False 1) (Fin False 0)))
            (line2seg2d (Float2 (Fin False 0) (Fin False 0))
              (Float2 (Fin False 3) (Fin False 0))
              (Float2 (Fin False 1) (Fin False 0)) (Float2 (Fin True 2) (Fin False 1)))"
  by (simp add: line2seg2d_def line2seg2d_res_def line2seg2d_det_def fdefs rounds)

lemma swap_exact_nonzero:
  assumes "line2seg2d_exact origin direction p0 p1"
    and "line2seg2d_exact origin direction p1 p0"
  shows "(line2seg2d origin direction p1 p0 \<noteq> NaN \<longleftrightarrow>
              line2seg2d origin direction p0 p1 \<noteq> NaN)
         \<and> (line2seg2d origin direction p0 p1 \<noteq> NaN \<longrightarrow>
              feq (line2seg2d origin direction p1 p0) (line2seg2d origin direction p0 p1) \<and>
              valof (y2 (line2seg2d_res origin direction p1 p0))
                = 1 - valof (y2 (line2seg2d_res origin direction p0 p1)))"
proof -
  let ?r = "line2seg2d_res origin direction p0 p1"
  let ?r' = "line2seg2d_res origin direction p1 p0"
  let ?d = "line2seg2d_det direction p0 p1"
  let ?d' = "line2seg2d_det direction p1 p0"
  note v = seg2d_exact_vals [OF assms(1)]
  note w = seg2d_exact_vals [OF assms(2)]
  define D where "D = valof (x2 direction) * (valof (y2 p0) - valof (y2 p1))
               - valof (y2 direction) * (valof (x2 p0) - valof (x2 p1))"
  have D: "valof ?d = D" unfolding D_def by (rule v(2))
  have D': "valof ?d' = - D" unfolding w(2) D_def by (simp add: algebra_simps)
  have neg: "valof (x2 direction) * (valof (y2 p1) - valof (y2 p0))
               - valof (y2 direction) * (valof (x2 p1) - valof (x2 p0)) = - D"
    unfolding D_def by (simp add: algebra_simps)
  show ?thesis
  proof (cases "D = 0")
    case True
    then have "feq ?d f_zero" "feq ?d' f_zero"
      using v(1) w(1) by (simp_all add: feq_zero_finite D D')
    then show ?thesis by (simp add: line2seg2d_alt)
  next
    case False
    then have nz: "\<not> feq ?d f_zero" "\<not> feq ?d' f_zero"
      using v(1) w(1) by (simp_all add: feq_zero_finite D D')
    have k: "valof (x2 ?r') = valof (x2 ?r)"
      unfolding v(5) w(5) neg D_def [symmetric] using False by (rule swap2_k)
    have l: "valof (y2 ?r') = 1 - valof (y2 ?r)"
      unfolding v(6) w(6) neg D_def [symmetric] using False D_def by (rule swap2_l)
    have acc: "accept2d ?r' \<longleftrightarrow> accept2d ?r"
      using v(3,4) w(3,4) k l
      by (auto simp: accept2d_def between_def fle_zero_finite fle_one_finite)
    have "accept2d ?r \<Longrightarrow> feq (x2 ?r') (x2 ?r)"
      using v(3) w(3) k by (cases "x2 ?r"; cases "x2 ?r'") simp_all
    moreover have "accept2d ?r \<Longrightarrow> x2 ?r \<noteq> NaN"
      using v(3) by auto
    moreover have "accept2d ?r' \<Longrightarrow> x2 ?r' \<noteq> NaN"
      using w(3) by auto
    ultimately show ?thesis
      using nz acc l by (auto simp: line2seg2d_alt)
  qed
qed

text \<open>
  Claim C10, amended. For every origin, direction, \<open>p0\<close> and \<open>p1\<close>, the determinant of
  \<open>line2seg2d(origin, direction, p1, p0)\<close> is the opposite of the determinant of
  \<open>line2seg2d(origin, direction, p0, p1)\<close>, so that one call returns the sentinel at
  \<open>det == 0\<close> exactly when the other does. When moreover every arithmetic operation that
  the two calls perform is exact (no result is rounded; a call whose determinant is zero
  performs the operations of the determinant only), each call returns the sentinel
  exactly when the other does, and otherwise the two returned \<open>k\<close> are equal and the
  barycentric coordinates are \<open>l\<close> and \<open>1 - l\<close>.
\<close>

theorem swap_exact_invariant:
  "opposite (line2seg2d_det direction p1 p0) (line2seg2d_det direction p0 p1)
   \<and> valof (line2seg2d_det direction p1 p0) = - valof (line2seg2d_det direction p0 p1)
   \<and> (feq (line2seg2d_det direction p1 p0) f_zero \<longleftrightarrow>
        feq (line2seg2d_det direction p0 p1) f_zero)
   \<and> (line2seg2d_performed_exact origin direction p0 p1 \<and>
       line2seg2d_performed_exact origin direction p1 p0 \<longrightarrow>
         (line2seg2d origin direction p1 p0 \<noteq> NaN \<longleftrightarrow>
            line2seg2d origin direction p0 p1 \<noteq> NaN) \<and>
         (line2seg2d origin direction p0 p1 \<noteq> NaN \<longrightarrow>
            feq (line2seg2d origin direction p1 p0) (line2seg2d origin direction p0 p1) \<and>
            valof (y2 (line2seg2d_res origin direction p1 p0))
              = 1 - valof (y2 (line2seg2d_res origin direction p0 p1))))"
proof (intro conjI impI)
  note o = opposite_det [of direction p1 p0]
  show "opposite (line2seg2d_det direction p1 p0) (line2seg2d_det direction p0 p1)"
    by (rule o)
  show "valof (line2seg2d_det direction p1 p0) = - valof (line2seg2d_det direction p0 p1)"
    using o by (rule opposite_valof)
  show z: "feq (line2seg2d_det direction p1 p0) f_zero \<longleftrightarrow>
        feq (line2seg2d_det direction p0 p1) f_zero"
    using o by (rule opposite_zero)
  assume p: "line2seg2d_performed_exact origin direction p0 p1 \<and>
       line2seg2d_performed_exact origin direction p1 p0"
  have both: "(line2seg2d origin direction p1 p0 \<noteq> NaN \<longleftrightarrow>
            line2seg2d origin direction p0 p1 \<noteq> NaN) \<and>
         (line2seg2d origin direction p0 p1 \<noteq> NaN \<longrightarrow>
            feq (line2seg2d origin direction p1 p0) (line2seg2d origin direction p0 p1) \<and>
            valof (y2 (line2seg2d_res origin direction p1 p0))
              = 1 - valof (y2 (line2seg2d_res origin direction p0 p1)))"
  proof (cases "feq (line2seg2d_det direction p0 p1) f_zero")
    case True
    then show ?thesis using z by (simp add: line2seg2d_alt)
  next
    case False
    then have "line2seg2d_exact origin direction p0 p1" "line2seg2d_exact origin direction p1 p0"
      using p z by (simp_all add: line2seg2d_performed_exact_def)
    then show ?thesis by (rule swap_exact_nonzero)
  qed
  show "line2seg2d origin direction p1 p0 \<noteq> NaN \<longleftrightarrow>
            line2seg2d origin direction p0 p1 \<noteq> NaN"
    using both by blast
  show "feq (line2seg2d origin direction p1 p0) (line2seg2d origin direction p0 p1)"
    and "valof (y2 (line2seg2d_res origin direction p1 p0))
              = 1 - valof (y2 (line2seg2d_res origin direction p0 p1))"
    if "line2seg2d origin direction p0 p1 \<noteq> NaN"
    using both that by blast+
qed

text \<open>
  The witness: the segment from \<open>(2,-1)\<close> to \<open>(2,1)\<close>, which the ray from \<open>(0,0)\<close> in
  direction \<open>(1,0)\<close> meets, and the segment from \<open>(2,1)\<close> to \<open>(3,1)\<close>, parallel to the
  ray, whose determinant is zero.
\<close>

theorem swap_exact_invariant_witness:
  "line2seg2d_performed_exact (Float2 (Fin False 0) (Fin False 0))
              (Float2 (Fin False 1) (Fin False 0))
              (Float2 (Fin False 2) (Fin True 1)) (Float2 (Fin False 2) (Fin False 1))
   \<and> line2seg2d_performed_exact (Float2 (Fin False 0) (Fin False 0))
              (Float2 (Fin False 1) (Fin False 0))
              (Float2 (Fin False 2) (Fin False 1)) (Float2 (Fin False 2) (Fin True 1))
   \<and> line2seg2d (Float2 (Fin False 0) (Fin False 0)) (Float2 (Fin False 1) (Fin False 0))
              (Float2 (Fin False 2) (Fin True 1)) (Float2 (Fin False 2) (Fin False 1)) \<noteq> NaN
   \<and> feq (line2seg2d (Float2 (Fin False 0) (Fin False 0)) (Float2 (Fin False 1) (Fin False 0))
              (Float2 (Fin False 2) (Fin False 1)) (Float2 (Fin False 2) (Fin True 1)))
          (line2seg2d (Float2 (Fin False 0) (Fin False 0)) (Float2 (Fin False 1) (Fin False 0))
              (Float2 (Fin False 2) (Fin True 1)) (Float2 (Fin False 2) (Fin False 1)))
   \<and> line2seg2d_performed_exact (Float2 (Fin False 0) (Fin False 0))
              (Float2 (Fin False 1) (Fin False 0))
              (Float2 (Fin False 2) (Fin False 1)) (Float2 (Fin False 3) (Fin False 1))
   \<and> line2seg2d_performed_exact (Float2 (Fin False 0) (Fin False 0))
              (Float2 (Fin False 1) (Fin False 0))
              (Float2 (Fin False 3) (Fin False 1)) (Float2 (Fin False 2) (Fin False 1))
   \<and> feq (line2seg2d_det (Float2 (Fin False 1) (Fin False 0))
              (Float2 (Fin False 2) (Fin False 1)) (Float2 (Fin False 3) (Fin False 1))) f_zero
   \<and> line2seg2d (Float2 (Fin False 0) (Fin False 0)) (Float2 (Fin False 1) (Fin False 0))
              (Float2 (Fin False 2) (Fin False 1)) (Float2 (Fin False 3) (Fin False 1)) = NaN
   \<and> line2seg2d (Float2 (Fin False 0) (Fin False 0)) (Float2 (Fin False 1) (Fin False 0))
              (Float2 (Fin False 3) (Fin False 1)) (Float2 (Fin False 2) (Fin False 1)) = NaN"
proof -
  let ?o = "Float2 (Fin False 0) (Fin False 0)" and ?d = "Float2 (Fin False 1) (Fin False 0)"
  let ?a0 = "Float2 (Fin False 2) (Fin True 1)" and ?a1 = "Float2 (Fin False 2) (Fin False 1)"
  let ?b0 = "Float2 (Fin False 2) (Fin False 1)" and ?b1 = "Float2 (Fin False 3) (Fin False 1)"
  have e: "line2seg2d ?o ?d ?a0 ?a1 \<noteq> NaN"
    by (simp add: line2seg2d_def fdefs rounds)
  have pa: "line2seg2d_performed_exact ?o ?d ?a0 ?a1" "line2seg2d_performed_exact ?o ?d ?a1 ?a0"
    using seg2d_exact_hit seg2d_exact_hit_swapped seg2d_det_exact_hit(1,2)
    by (simp_all add: line2seg2d_performed_exact_def)
  have pb: "line2seg2d_performed_exact ?o ?d ?b0 ?b1" "line2seg2d_performed_exact ?o ?d ?b1 ?b0"
    using seg2d_parallel_det seg2d_det_exact_hit(3,4)
    by (simp_all add: line2seg2d_performed_exact_def)
  have n: "line2seg2d ?o ?d ?b0 ?b1 = NaN"
    using seg2d_parallel_det(1) by (simp add: line2seg2d_alt)
  show ?thesis
    using swap_exact_invariant [of ?d ?a1 ?a0 ?o] swap_exact_invariant [of ?d ?b1 ?b0 ?o]
      pa pb e n seg2d_parallel_det(1)
    by blast
qed

end
